theory Spec2Isabelle
  imports Main "HOL-Library.Word" "HOL-Library.AList"
begin

unbundle bit_operations_syntax

section \<open>Python values shared by the modules\<close>

text \<open>
  The exceptions the modelled functions can raise. A function that can raise returns
  \<open>py_error + 'a\<close>, with \<open>Inl\<close> for the exception.
\<close>

datatype py_error =
    ValueError | KeyError | IndexError | AttributeError | TypeError
  | OverflowError | ZeroDivisionError | UnboundLocalError | PolarH10Error | BleakError

type_synonym byte = "8 word"

text \<open>Sequencing: an exception raised by the first computation ends the whole.\<close>

definition py_bind :: "py_error + 'a \<Rightarrow> ('a \<Rightarrow> py_error + 'b) \<Rightarrow> py_error + 'b" where
  "py_bind r f = (case r of Inl e \<Rightarrow> Inl e | Inr x \<Rightarrow> f x)"

lemma py_bind_cong [fundef_cong]:
  "r = r' \<Longrightarrow> (\<And>x. r' = Inr x \<Longrightarrow> f x = f' x) \<Longrightarrow> py_bind r f = py_bind r' f'"
  by (cases r') (simp_all add: py_bind_def)

lemma py_bind_simps [simp]:
  "py_bind (Inl e) f = Inl e"
  "py_bind (Inr x) f = f x"
  by (simp_all add: py_bind_def)

text \<open>\<open>data[a:b]\<close> for \<open>0 \<le> a\<close>: the slice never raises, it is cut at the end of the data.\<close>

definition slice :: "'a list \<Rightarrow> nat \<Rightarrow> nat \<Rightarrow> 'a list" where
  "slice data a b = take (b - a) (drop a data)"

text \<open>\<open>int.from_bytes(bs, "little")\<close> (unsigned).\<close>

fun from_bytes :: "byte list \<Rightarrow> int" where
  "from_bytes [] = 0"
| "from_bytes (b # bs) = uint b + 256 * from_bytes bs"

text \<open>
  \<open>x.to_bytes(n, "little")\<close> (unsigned): OverflowError for a negative \<open>x\<close> and for one
  that does not fit \<open>n\<close> bytes.
\<close>

definition to_bytes :: "int \<Rightarrow> nat \<Rightarrow> py_error + byte list" where
  "to_bytes x n =
     (if x < 0 \<or> 256 ^ n \<le> x then Inl OverflowError
      else Inr (map (\<lambda>i. word_of_int (x div 256 ^ i)) [0..<n]))"

subsection \<open>The enumerations of \<open>core/enums.py\<close>\<close>

text \<open>
  \<open>core/enums.py\<close> (PMDSetting, PMDMeasurement, PMDCommand, PMDStatus) is not among the
  source files, so an enumeration is a parameter of every function that uses one: the
  table of its members in definition order, each a name and an integer value. A member
  is represented by its value (two names with one value are one member in Python, the
  second name an alias of the first).
\<close>

type_synonym py_enum = "(string \<times> int) list"

text \<open>\<open>E(v)\<close>: the member with value \<open>v\<close>, ValueError when there is none.\<close>

definition enum_call :: "py_enum \<Rightarrow> int \<Rightarrow> py_error + int" where
  "enum_call E v = (if v \<in> snd ` set E then Inr v else Inl ValueError)"

text \<open>\<open>E[name]\<close>: KeyError for a name that is not a member's.\<close>

definition enum_getitem :: "py_enum \<Rightarrow> string \<Rightarrow> py_error + int" where
  "enum_getitem E name = (case map_of E name of None \<Rightarrow> Inl KeyError | Some v \<Rightarrow> Inr v)"

text \<open>\<open>E.NAME\<close>: AttributeError for a name that is not a member's.\<close>

definition enum_attr :: "py_enum \<Rightarrow> string \<Rightarrow> py_error + int" where
  "enum_attr E name = (case map_of E name of None \<Rightarrow> Inl AttributeError | Some v \<Rightarrow> Inr v)"

text \<open>\<open>member.name\<close>: the first name defined with the member's value.\<close>

definition enum_name :: "py_enum \<Rightarrow> int \<Rightarrow> string" where
  "enum_name E v = (case find (\<lambda>p. snd p = v) E of Some p \<Rightarrow> fst p | None \<Rightarrow> [])"

section \<open>Parameter codec (\<open>core/utils.py\<close>)\<close>

text \<open>
  A setting's value is a single integer or a list of integers; a parameter dictionary is
  an association list in insertion order with distinct keys (a Python \<open>dict\<close>).
\<close>

datatype pmd_value = Scalar int | Values "int list"

type_synonym pmd_params = "(string \<times> pmd_value) list"

text \<open>
  \<open>get_setting_size\<close> looks its argument up in a dictionary whose keys are the members
  CHANNELS, FACTOR and RANGE_MILLIUNIT of PMDSetting. \<open>deserialize_pmd_parameters\<close>
  calls it with a member, \<open>serialize_pmd_parameters\<close> with the setting's name (a
  \<open>str\<close>, which equals no member, so that the lookup falls to the default 2).
\<close>

datatype setting_key = Name string | Member int

definition get_setting_size :: "py_enum \<Rightarrow> setting_key \<Rightarrow> py_error + nat" where
  "get_setting_size S setting =
     py_bind (enum_attr S ''CHANNELS'') (\<lambda>c.
     py_bind (enum_attr S ''FACTOR'') (\<lambda>f.
     py_bind (enum_attr S ''RANGE_MILLIUNIT'') (\<lambda>r.
       Inr (case setting of
              Name _ \<Rightarrow> 2
            | Member m \<Rightarrow> if m = r then 8 else if m = f then 4 else if m = c then 1 else 2))))"

subsection \<open>\<open>serialize_pmd_parameters\<close>\<close>

text \<open>The loop \<open>for x in value: data += x.to_bytes(get_setting_size(setting), "little")\<close>.\<close>

fun serialize_values :: "py_enum \<Rightarrow> string \<Rightarrow> int list \<Rightarrow> py_error + byte list" where
  "serialize_values S setting [] = Inr []"
| "serialize_values S setting (x # xs) =
     py_bind (get_setting_size S (Name setting)) (\<lambda>n.
     py_bind (to_bytes x n) (\<lambda>b.
     py_bind (serialize_values S setting xs) (\<lambda>bs. Inr (b @ bs))))"

text \<open>One round of the loop over \<open>parameters.items()\<close>: the bytes it appends.\<close>

definition serialize_item :: "py_enum \<Rightarrow> string \<times> pmd_value \<Rightarrow> py_error + byte list" where
  "serialize_item S item =
     py_bind (enum_getitem S (fst item)) (\<lambda>m.
     py_bind (to_bytes m 1) (\<lambda>idb.
       (case snd item of
          Values xs \<Rightarrow>
            py_bind (to_bytes (int (length xs)) 1) (\<lambda>cb.
            py_bind (serialize_values S (fst item) xs) (\<lambda>vb.
              Inr (idb @ cb @ vb)))
        | Scalar x \<Rightarrow>
            py_bind (get_setting_size S (Name (fst item))) (\<lambda>n.
            py_bind (to_bytes x n) (\<lambda>vb.
              Inr (idb @ [1] @ vb))))))"

fun serialize_pmd_parameters :: "py_enum \<Rightarrow> pmd_params \<Rightarrow> py_error + byte list" where
  "serialize_pmd_parameters S [] = Inr []"
| "serialize_pmd_parameters S (item # parameters) =
     py_bind (serialize_item S item) (\<lambda>b.
     py_bind (serialize_pmd_parameters S parameters) (\<lambda>bs. Inr (b @ bs)))"

subsection \<open>\<open>deserialize_pmd_parameters\<close>\<close>

text \<open>
  The loop \<open>for _ in range(count)\<close> of the list branch, with its \<open>break\<close> when the
  next value would pass the end of the data. It returns the offset and the list read.
\<close>

fun read_values :: "byte list \<Rightarrow> nat \<Rightarrow> nat \<Rightarrow> nat \<Rightarrow> int list \<Rightarrow> nat \<times> int list" where
  "read_values data value_size 0 offset value = (offset, value)"
| "read_values data value_size (Suc k) offset value =
     (if offset + value_size > length data then (offset, value)
      else read_values data value_size k (offset + value_size)
             (value @ [from_bytes (slice data offset (offset + value_size))]))"

text \<open>
  The body of the \<open>while\<close> loop from \<open>count = data[offset]\<close> on, for the member
  \<open>setting_type\<close> read at \<open>offset\<close> and its \<open>value_size\<close>: the entry's value and the
  offset after it. With \<open>count = 1\<close> the slice is decoded and the offset advanced
  whatever the number of bytes left.
\<close>

definition read_entry :: "byte list \<Rightarrow> nat \<Rightarrow> nat \<Rightarrow> nat \<times> pmd_value" where
  "read_entry data value_size offset =
     (let count = unat (data ! (offset + 1)) in
      if count = 1
      then (offset + 2 + value_size,
            Scalar (from_bytes (slice data (offset + 2) (offset + 2 + value_size))))
      else (case read_values data value_size count (offset + 2) [] of
              (offset', value) \<Rightarrow> (offset', Values value)))"

lemma read_values_offset: "offset \<le> fst (read_values data value_size count offset value)"
proof (induction count arbitrary: offset "value")
  case 0
  show ?case by simp
next
  case (Suc k)
  have "offset \<le> offset + value_size" by simp
  also have "\<dots> \<le> fst (read_values data value_size k (offset + value_size)
      (value @ [from_bytes (slice data offset (offset + value_size))]))"
    by (rule Suc.IH)
  finally show ?case by simp
qed

lemma read_entry_offset: "offset + 2 \<le> fst (read_entry data value_size offset)"
proof (cases "unat (data ! (offset + 1)) = 1")
  case True
  then show ?thesis by (simp add: read_entry_def)
next
  case False
  obtain offset' "value" where
    r: "read_values data value_size (unat (data ! (offset + 1))) (offset + 2) [] = (offset', value)"
    by (cases "read_values data value_size (unat (data ! (offset + 1))) (offset + 2) []")
  have "offset + 2 \<le> offset'"
    using read_values_offset [of "offset + 2" data value_size "unat (data ! (offset + 1))" "[]"]
    by (simp only: r fst_conv)
  with False r show ?thesis by (simp add: read_entry_def)
qed

text \<open>
  The \<open>while offset + 2 < len(data)\<close> loop. \<open>PMDSetting(data[offset])\<close> raises
  ValueError for a byte that is no member's value; \<open>params[setting_type.name] = value\<close>
  keeps the position of a key that is already there.
\<close>

function deserialize_loop :: "py_enum \<Rightarrow> byte list \<Rightarrow> nat \<Rightarrow> pmd_params \<Rightarrow> py_error + pmd_params" where
  "deserialize_loop S data offset params =
     (if offset + 2 < length data then
        py_bind (enum_call S (uint (data ! offset))) (\<lambda>setting_type.
        py_bind (get_setting_size S (Member setting_type)) (\<lambda>value_size.
          deserialize_loop S data (fst (read_entry data value_size offset))
            (AList.update (enum_name S setting_type) (snd (read_entry data value_size offset)) params)))
      else Inr params)"
  by pat_completeness auto
termination
proof (relation "measure (\<lambda>(S, data, offset, params). length data - offset)")
  show "wf (measure (\<lambda>(S, data, offset, params). length data - offset))" by simp
next
  fix S :: py_enum and data :: "byte list" and offset :: nat and params :: pmd_params
    and setting_type :: int and value_size :: nat
  assume "offset + 2 < length data"
  moreover have "offset + 2 \<le> fst (read_entry data value_size offset)"
    by (rule read_entry_offset)
  ultimately show "((S, data, fst (read_entry data value_size offset),
      AList.update (enum_name S setting_type) (snd (read_entry data value_size offset)) params),
      (S, data, offset, params)) \<in> measure (\<lambda>(S, data, offset, params). length data - offset)"
    by simp
qed

declare deserialize_loop.simps [simp del]

definition deserialize_pmd_parameters :: "py_enum \<Rightarrow> byte list \<Rightarrow> py_error + pmd_params" where
  "deserialize_pmd_parameters S data = deserialize_loop S data 0 []"

section \<open>Frame decoders (\<open>core/utils.py\<close>)\<close>

text \<open>\<open>int.from_bytes(bs, "little", signed=True)\<close>: two's complement over the bytes given.\<close>

definition from_bytes_signed :: "byte list \<Rightarrow> int" where
  "from_bytes_signed bs =
     (if bs \<noteq> [] \<and> 2 ^ (8 * length bs - 1) \<le> from_bytes bs
      then from_bytes bs - 2 ^ (8 * length bs) else from_bytes bs)"

text \<open>
  The generator \<open>iter_batched\<close>, as the list of the batches it yields, or the ValueError
  it raises on the way (its consumers only collect the batches in local lists, which are
  lost with the exception). The loop is \<open>for idx in range(0, iterable_len, n)\<close>.
\<close>

function iter_batched_from :: "'a list \<Rightarrow> nat \<Rightarrow> bool \<Rightarrow> nat \<Rightarrow> py_error + 'a list list" where
  "iter_batched_from iterable n strict idx =
     (if idx < length iterable \<and> 0 < n then
        (let batch = slice iterable idx (min (idx + n) (length iterable)) in
         if strict \<and> length batch \<noteq> n then Inl ValueError
         else py_bind (iter_batched_from iterable n strict (idx + n)) (\<lambda>rest. Inr (batch # rest)))
      else Inr [])"
  by pat_completeness auto
termination
  by (relation "measure (\<lambda>(iterable, n, strict, idx). length iterable - idx)") auto

declare iter_batched_from.simps [simp del]

definition iter_batched :: "'a list \<Rightarrow> nat \<Rightarrow> bool \<Rightarrow> py_error + 'a list list" where
  "iter_batched iterable n strict =
     (if n < 1 then Inl ValueError else iter_batched_from iterable n strict 0)"

text \<open>A decoded frame: the dictionary from a channel's name to its samples.\<close>

type_synonym frame = "(string \<times> int list) list"

definition process_ecg_samples :: "int \<Rightarrow> byte list \<Rightarrow> py_error + (int \<times> frame)" where
  "process_ecg_samples frame_type data =
     (if frame_type \<noteq> 0 then Inl ValueError
      else py_bind (iter_batched data 3 True) (\<lambda>samples.
        Inr (int (length samples), [(''lead_1'', map from_bytes_signed samples)])))"

text \<open>
  \<open>for axis, sample in zip(result.keys(), iter_batched(frame, sample_size, True))\<close>: a
  sample is appended to each axis in turn, as far as the shorter of the two goes.
\<close>

fun append_axes :: "frame \<Rightarrow> int list \<Rightarrow> frame" where
  "append_axes ((axis, samples) # result) (sample # rest) =
     (axis, samples @ [sample]) # append_axes result rest"
| "append_axes result rest = result"

text \<open>
  The loop over the blocks of \<open>sample_size * 3\<close> bytes. Each block has exactly that
  length (the outer batching is strict), so the inner strict batching yields its three
  samples.
\<close>

fun acc_frames :: "nat \<Rightarrow> byte list list \<Rightarrow> int \<times> frame \<Rightarrow> py_error + (int \<times> frame)" where
  "acc_frames sample_size [] acc = Inr acc"
| "acc_frames sample_size (block # blocks) acc =
     py_bind (iter_batched block sample_size True) (\<lambda>samples.
       acc_frames sample_size blocks
         (fst acc + 1, append_axes (snd acc) (map from_bytes_signed samples)))"

definition process_acc_samples :: "int \<Rightarrow> byte list \<Rightarrow> py_error + (int \<times> frame)" where
  "process_acc_samples frame_type data =
     (if frame_type < 0 \<or> frame_type > 2 then Inl ValueError
      else let sample_size = nat (frame_type + 1) in
        py_bind (iter_batched data (sample_size * 3) True) (\<lambda>blocks.
          acc_frames sample_size blocks (0, [(''x'', []), (''y'', []), (''z'', [])])))"

text \<open>
  A heart-rate sample: the dictionary \<open>process_hr_samples\<close> builds, in the order in which
  it sets the keys. The function returns \<open>None\<close> for fewer than two bytes and raises
  ValueError when the RR intervals do not fill whole pairs of bytes.
\<close>

datatype hr_field = IntV int | BoolV bool | ListV "int list"

definition process_hr_samples :: "byte list \<Rightarrow> py_error + (string \<times> hr_field) list option" where
  "process_hr_samples data =
     (if length data < 2 then Inr None
      else
        let flags = data ! 0;
            idx = 1;
            sample = [(''heart_rate'',
              IntV (if flags AND 0x01 \<noteq> 0 then from_bytes (slice data idx (idx + 2))
                   else uint (data ! idx)))];
            idx = (if flags AND 0x01 \<noteq> 0 then idx + 2 else idx + 1);
            sample = (if flags AND 0x04 \<noteq> 0
              then sample @ [(''sensor_contact'', BoolV (flags AND 0x02 \<noteq> 0))] else sample);
            sample = (if flags AND 0x08 \<noteq> 0
              then sample @ [(''energy_expended'', IntV (from_bytes (slice data idx (idx + 2))))]
              else sample);
            idx = (if flags AND 0x08 \<noteq> 0 then idx + 2 else idx)
        in if flags AND 0x10 \<noteq> 0
           then py_bind (iter_batched (drop idx data) 2 True) (\<lambda>vals.
             Inr (Some (sample @
               [(''rr_interval'', ListV (map (\<lambda>val. from_bytes val * 1000 div 1024) vals))])))
           else Inr (Some sample))"

section \<open>Timestamp reconstruction (\<open>core/utils.py\<close>)\<close>

text \<open>
  The least integer that Python does not convert to a float: \<open>int\<close> to \<open>float\<close> rounds
  to nearest, and from \<open>2^1024 - 2^970\<close> on the result would be \<open>2^1024\<close>, so that the
  conversion, and a true division with a quotient that large, raise OverflowError.
\<close>

definition float_overflow :: int where
  "float_overflow = 2 ^ 1024 - 2 ^ 970"

text \<open>
  \<open>get_timestamps_list\<close>. Its two float operations are exact on integers:
  \<^item> \<open>int(1e9 // sample_rate)\<close> is \<open>10^9 div sample_rate\<close> for a positive
    \<open>sample_rate\<close> (0 for every rate above \<open>10^9\<close>), and OverflowError for a rate too
    large for a float;
  \<^item> \<open>abs((c - d) / d) > 0.1\<close>, a correctly rounded quotient compared with the float
    nearest to 0.1, holds exactly when \<open>10 * |c - d| > d\<close>: for \<open>d \<le> 10^9\<close> a quotient
    other than 1/10 is at least \<open>10^-10\<close> away from it. The division raises
    ZeroDivisionError for \<open>d = 0\<close> and OverflowError for a quotient too large.
\<close>

definition get_timestamps_list :: "int \<Rightarrow> int \<Rightarrow> int \<Rightarrow> int \<Rightarrow> int \<Rightarrow> py_error + int list" where
  "get_timestamps_list n_samples sample_rate timestamp p_timestamp delta =
     (if n_samples \<le> 0 then Inl ValueError
      else if sample_rate \<le> 0 then Inl ValueError
      else if timestamp < p_timestamp then Inl ValueError
      else if float_overflow \<le> sample_rate then Inl OverflowError
      else
        let timestamp_delta = 1000000000 div sample_rate;
            calculate_timestamp_delta = (timestamp - p_timestamp) div n_samples
        in if timestamp_delta = 0 then Inl ZeroDivisionError
           else if float_overflow * timestamp_delta \<le> \<bar>calculate_timestamp_delta - timestamp_delta\<bar>
             then Inl OverflowError
           else
             let lost = 10 * \<bar>calculate_timestamp_delta - timestamp_delta\<bar> > timestamp_delta;
                 p_timestamp = (if lost then timestamp - n_samples * timestamp_delta else p_timestamp);
                 timestamp_delta = (if lost then timestamp_delta else calculate_timestamp_delta);
                 p_timestamp = p_timestamp + timestamp_delta
             in Inr (map (\<lambda>i. p_timestamp + int i * timestamp_delta + delta) [0..<nat n_samples]))"

section \<open>The device interface (\<open>core/polar_h10.py\<close>)\<close>

datatype NotificationType = ECG | ACC | BATTERY_LVL | DISCONNECT | HEAR_RATE

fun NotificationType_value :: "NotificationType \<Rightarrow> int" where
  "NotificationType_value ECG = 0"
| "NotificationType_value ACC = 2"
| "NotificationType_value BATTERY_LVL = 101"
| "NotificationType_value DISCONNECT = 102"
| "NotificationType_value HEAR_RATE = 201"

text \<open>\<open>NotificationType(v)\<close>: ValueError for an integer that is no member's value.\<close>

definition NotificationType_call :: "int \<Rightarrow> py_error + NotificationType" where
  "NotificationType_call v =
     (if v = 0 then Inr ECG else if v = 2 then Inr ACC else if v = 101 then Inr BATTERY_LVL
      else if v = 102 then Inr DISCONNECT else if v = 201 then Inr HEAR_RATE
      else Inl ValueError)"

text \<open>The four enumerations of \<open>core/enums.py\<close> that the class uses, as one parameter.\<close>

record enums =
  PMDSetting :: py_enum
  PMDMeasurement :: py_enum
  PMDCommand :: py_enum
  PMDStatus :: py_enum

text \<open>
  The fields of a \<open>PolarH10\<close> object that the modelled methods read or write
  (\<open>_callbacks\<close>, \<open>_p_timestamp\<close>, \<open>_config\<close>, \<open>_current_config\<close>,
  \<open>_device_time_delta\<close>). A callback is a value of any type \<open>'cb\<close>; an entry of
  \<open>_current_config\<close> is \<open>None\<close> or a dictionary from a setting's name to an integer.
\<close>

record 'cb polar_h10 =
  callbacks :: "NotificationType \<rightharpoonup> 'cb"
  p_timestamp :: "NotificationType \<rightharpoonup> int"
  config :: "NotificationType \<rightharpoonup> pmd_params"
  current_config :: "NotificationType \<rightharpoonup> (string \<times> int) list option"
  device_time_delta :: int

subsection \<open>\<open>_handle_pmd_data\<close>\<close>

text \<open>
  What the \<open>try\<close> statement of \<open>_handle_pmd_data\<close> leaves behind: \<open>n_samples\<close> and
  \<open>processed\<close> bound, the handler returned (a measurement that is neither ECG nor ACC),
  or an exception caught and logged with the two variables left unbound.
\<close>

datatype decoded = Decoded int frame | Returned | Caught

definition decode_pmd_frame :: "py_enum \<Rightarrow> int \<Rightarrow> int \<Rightarrow> byte list \<Rightarrow> decoded" where
  "decode_pmd_frame M measurement_type frame_type samples =
     (case enum_attr M ''ECG'' of
        Inl e \<Rightarrow> Caught
      | Inr ecg \<Rightarrow>
          if measurement_type = ecg then
            (case process_ecg_samples frame_type samples of
               Inl e \<Rightarrow> Caught
             | Inr r \<Rightarrow> Decoded (fst r) (snd r))
          else
            (case enum_attr M ''ACC'' of
               Inl e \<Rightarrow> Caught
             | Inr acc \<Rightarrow>
                 if measurement_type = acc then
                   (case process_acc_samples frame_type samples of
                      Inl e \<Rightarrow> Caught
                    | Inr r \<Rightarrow> Decoded (fst r) (snd r))
                 else Returned))"

text \<open>\<open>self._current_config[notify_type]["SAMPLE_RATE"]\<close>.\<close>

definition current_sample_rate :: "'cb polar_h10 \<Rightarrow> NotificationType \<Rightarrow> py_error + int" where
  "current_sample_rate st notify_type =
     (case current_config st notify_type of
        None \<Rightarrow> Inl KeyError
      | Some None \<Rightarrow> Inl TypeError
      | Some (Some params) \<Rightarrow>
          (case map_of params ''SAMPLE_RATE'' of None \<Rightarrow> Inl KeyError | Some r \<Rightarrow> Inr r))"

text \<open>
  The handler from \<open>notify_type = NotificationType(measurement_type.value)\<close> on. It
  returns the exception that leaves the handler, or the callback it called with the
  dictionary passed to it (\<open>None\<close> when it returned without a call), and the object's
  fields afterwards. After a caught exception the handler goes on to the statements
  below the \<open>try\<close>, where reading \<open>n_samples\<close> raises UnboundLocalError.
\<close>

definition deliver_pmd_frame ::
  "py_enum \<Rightarrow> int \<Rightarrow> int \<Rightarrow> int \<Rightarrow> byte list \<Rightarrow> 'cb polar_h10 \<Rightarrow>
   (py_error + ('cb \<times> frame) option) \<times> 'cb polar_h10" where
  "deliver_pmd_frame M measurement_type timestamp frame_type samples st =
     (case NotificationType_call measurement_type of
        Inl e \<Rightarrow> (Inl e, st)
      | Inr notify_type \<Rightarrow>
          (case callbacks st notify_type of
             None \<Rightarrow> (Inr None, st)
           | Some callback \<Rightarrow>
               (case decode_pmd_frame M measurement_type frame_type samples of
                  Returned \<Rightarrow> (Inr None, st)
                | Caught \<Rightarrow>
                    (case current_sample_rate st notify_type of
                       Inl e \<Rightarrow> (Inl e, st)
                     | Inr sample_rate \<Rightarrow> (Inl UnboundLocalError, st))
                | Decoded n_samples processed \<Rightarrow>
                    (case current_sample_rate st notify_type of
                       Inl e \<Rightarrow> (Inl e, st)
                     | Inr sample_rate \<Rightarrow>
                         (case p_timestamp st notify_type of
                            None \<Rightarrow> (Inl KeyError, st)
                          | Some p \<Rightarrow>
                              (case get_timestamps_list n_samples sample_rate timestamp p
                                      (device_time_delta st) of
                                 Inl e \<Rightarrow> (Inl e, st)
                               | Inr time_list \<Rightarrow>
                                   (Inr (Some (callback, (''time'', time_list) # processed)),
                                    st\<lparr>p_timestamp := (p_timestamp st)(notify_type \<mapsto> timestamp)\<rparr>)))))))"

text \<open>
  \<open>_handle_pmd_data\<close>, with the host time \<open>now\<close> (\<open>time.time_ns()\<close> plus the local
  offset) as an input. The clock is resynchronised before anything is decoded; the log
  line of the resynchronisation computes \<open>dif // 1e6\<close>, which converts \<open>dif\<close> to a float.
\<close>

definition handle_pmd_data ::
  "py_enum \<Rightarrow> int \<Rightarrow> byte list \<Rightarrow> 'cb polar_h10 \<Rightarrow>
   (py_error + ('cb \<times> frame) option) \<times> 'cb polar_h10" where
  "handle_pmd_data M now data st =
     (if length data < 1 then (Inl IndexError, st)
      else
        (case enum_call M (uint (data ! 0)) of
           Inl e \<Rightarrow> (Inl e, st)
         | Inr measurement_type \<Rightarrow>
             (let timestamp = from_bytes (slice data 1 9) in
              if length data < 10 then (Inl IndexError, st)
              else
                let frame_type = uint (data ! 9);
                    samples = drop 10 data;
                    dif = now - timestamp - device_time_delta st
                in if \<bar>dif\<bar> > 1000000000 then
                     (let st = st\<lparr>device_time_delta := device_time_delta st + dif\<rparr> in
                      if float_overflow \<le> \<bar>dif\<bar> then (Inl OverflowError, st)
                      else deliver_pmd_frame M measurement_type timestamp frame_type samples st)
                   else deliver_pmd_frame M measurement_type timestamp frame_type samples st)))"

subsection \<open>The response handler of \<open>_pmd_control_point_request\<close>\<close>



subsection \<open>\<open>_validate_pmd_parameters\<close>\<close>

text \<open>The first loop: every setting's default is the last value of its list, or the scalar.\<close>

fun default_params :: "pmd_params \<Rightarrow> (string \<times> int) list \<Rightarrow> py_error + (string \<times> int) list" where
  "default_params [] params = Inr params"
| "default_params (item # items) params =
     (case snd item of
        Values xs \<Rightarrow>
          if xs = [] then Inl IndexError
          else default_params items (AList.update (fst item) (last xs) params)
      | Scalar x \<Rightarrow> default_params items (AList.update (fst item) x params))"

text \<open>
  The second loop. \<open>value not in pmd_config[notification_type][setting]\<close> raises
  TypeError when the capability is a single integer.
\<close>

fun check_params ::
  "pmd_params \<Rightarrow> (string \<times> int) list \<Rightarrow> (string \<times> int) list \<Rightarrow> py_error + (string \<times> int) list" where
  "check_params caps [] valid_params = Inr valid_params"
| "check_params caps (item # items) valid_params =
     (case map_of caps (fst item) of
        None \<Rightarrow> Inl ValueError
      | Some (Scalar x) \<Rightarrow> Inl TypeError
      | Some (Values xs) \<Rightarrow>
          if snd item \<notin> set xs then Inl ValueError
          else check_params caps items (AList.update (fst item) (snd item) valid_params))"

definition validate_pmd_parameters ::
  "NotificationType \<Rightarrow> (NotificationType \<rightharpoonup> pmd_params) \<Rightarrow> (string \<times> int) list option \<Rightarrow>
   py_error + (string \<times> int) list option" where
  "validate_pmd_parameters notification_type pmd_config parameters =
     (case pmd_config notification_type of
        None \<Rightarrow> Inl KeyError
      | Some caps \<Rightarrow>
          py_bind (default_params caps []) (\<lambda>params.
            if params = [] then Inr None
            else
              (case parameters of
                 None \<Rightarrow> Inr (Some params)
               | Some overrides \<Rightarrow>
                   if overrides = [] then Inr (Some params)
                   else
                     py_bind
                       (check_params caps
                          (fold (\<lambda>item. AList.update (fst item) (snd item)) overrides params) [])
                       (\<lambda>valid_params. Inr (Some valid_params)))))"

subsection \<open>\<open>register_notification\<close> and \<open>remove_notification\<close>\<close>

text \<open>
  What the transport and the device answer, as a parameter: the exception, if any, of
  \<open>start_notify\<close> on the heart-rate characteristic (\<open>_enable_hr_notification\<close>), and
  the outcome of \<open>_pmd_control_point_request\<close> for a command, a measurement and a
  payload: an exception of the transport, or the status and the parameters of the
  response (the status ERROR_INVALID_STATE after the five seconds without one).
\<close>

record transport =
  enable_hr_notification :: "py_error option"
  pmd_control_point_request :: "int \<Rightarrow> int \<Rightarrow> byte list \<Rightarrow> py_error + (int \<times> pmd_params)"

text \<open>
  The \<open>try\<close> block of \<open>register_notification\<close> after \<open>self._p_timestamp[...] = 0\<close>.
  \<open>serialize_pmd_parameters(None)\<close> raises AttributeError.
\<close>

definition start_measurement ::
  "enums \<Rightarrow> transport \<Rightarrow> NotificationType \<Rightarrow> (string \<times> int) list option \<Rightarrow> py_error + unit" where
  "start_measurement en env notification_type valid_params =
     py_bind (enum_attr (PMDCommand en) ''START_MEASUREMENT'') (\<lambda>command.
     py_bind (enum_call (PMDMeasurement en) (NotificationType_value notification_type)) (\<lambda>measurement.
     py_bind (case valid_params of
                None \<Rightarrow> Inl AttributeError
              | Some params \<Rightarrow>
                  serialize_pmd_parameters (PMDSetting en)
                    (map (\<lambda>item. (fst item, Scalar (snd item))) params)) (\<lambda>payload.
     py_bind (pmd_control_point_request env command measurement payload) (\<lambda>response.
     py_bind (enum_attr (PMDStatus en) ''SUCCESS'') (\<lambda>success.
       if fst response \<noteq> success then Inl PolarH10Error else Inr ())))))"

definition register_notification ::
  "enums \<Rightarrow> transport \<Rightarrow> NotificationType \<Rightarrow> 'cb \<Rightarrow> (string \<times> int) list option \<Rightarrow>
   'cb polar_h10 \<Rightarrow> (py_error + unit) \<times> 'cb polar_h10" where
  "register_notification en env notification_type callback parameters st =
     (if config st notification_type = None then (Inl ValueError, st)
      else if callbacks st notification_type \<noteq> None then (Inl ValueError, st)
      else
        (case validate_pmd_parameters notification_type (config st) parameters of
           Inl e \<Rightarrow> (Inl e, st)
         | Inr valid_params \<Rightarrow>
             (let st = st\<lparr>callbacks := (callbacks st)(notification_type \<mapsto> callback),
                         current_config := (current_config st)(notification_type \<mapsto> valid_params)\<rparr>
              in if notification_type = HEAR_RATE then
                   (case enable_hr_notification env of
                      Some e \<Rightarrow> (Inl e, st)
                    | None \<Rightarrow> (Inr (), st))
                 else if NotificationType_value notification_type \<ge> 100 then (Inr (), st)
                 else
                   (let st = st\<lparr>p_timestamp := (p_timestamp st)(notification_type \<mapsto> 0)\<rparr> in
                    case start_measurement en env notification_type valid_params of
                      Inl e \<Rightarrow>
                        (Inl e,
                         st\<lparr>callbacks := (callbacks st)(notification_type := None),
                            current_config := (current_config st)(notification_type := None)\<rparr>)
                    | Inr u \<Rightarrow> (Inr (), st)))))"

text \<open>The request of \<open>remove_notification\<close> and the check of its status.\<close>

definition stop_measurement ::
  "enums \<Rightarrow> transport \<Rightarrow> NotificationType \<Rightarrow> py_error + unit" where
  "stop_measurement en env notification_type =
     py_bind (enum_attr (PMDCommand en) ''STOP_MEASUREMENT'') (\<lambda>command.
     py_bind (enum_call (PMDMeasurement en) (NotificationType_value notification_type)) (\<lambda>measurement.
     py_bind (pmd_control_point_request env command measurement []) (\<lambda>response.
     py_bind (enum_attr (PMDStatus en) ''SUCCESS'') (\<lambda>success.
       if fst response \<noteq> success then Inl PolarH10Error else Inr ()))))"

text \<open>
  \<open>remove_notification\<close>. For HEAR_RATE it calls \<open>_enable_hr_notification\<close> and returns,
  and for the other kinds with a value of 100 or more it returns, before the two
  \<open>del\<close> statements.
\<close>

definition remove_notification ::
  "enums \<Rightarrow> transport \<Rightarrow> NotificationType \<Rightarrow> 'cb polar_h10 \<Rightarrow>
   (py_error + unit) \<times> 'cb polar_h10" where
  "remove_notification en env notification_type st =
     (if config st notification_type = None then (Inl ValueError, st)
      else if callbacks st notification_type = None then (Inl ValueError, st)
      else if notification_type = HEAR_RATE then
        (case enable_hr_notification env of
           Some e \<Rightarrow> (Inl e, st)
         | None \<Rightarrow> (Inr (), st))
      else if NotificationType_value notification_type \<ge> 100 then (Inr (), st)
      else
        (case stop_measurement en env notification_type of
           Inl e \<Rightarrow> (Inl e, st)
         | Inr u \<Rightarrow>
             (let st = st\<lparr>callbacks := (callbacks st)(notification_type := None)\<rparr> in
              if current_config st notification_type = None then (Inl KeyError, st)
              else (Inr (), st\<lparr>current_config := (current_config st)(notification_type := None)\<rparr>))))"

section \<open>Auxiliary notions for the properties\<close>

subsection \<open>Settings for which the codec is an inverse pair\<close>

text \<open>
  What the results below assume of the PMDSetting table: the names are distinct (Python
  refuses a second member of the same name), no value has two names, every value fits
  the one byte it is sent in, and the three members \<open>get_setting_size\<close> names exist.
\<close>

definition pmd_setting_enum_ok :: "py_enum \<Rightarrow> bool" where
  "pmd_setting_enum_ok S \<longleftrightarrow>
     distinct (map fst S) \<and> distinct (map snd S) \<and>
     list_all (\<lambda>p. 0 \<le> snd p \<and> snd p < 256) S \<and>
     list_all (\<lambda>n. n \<in> fst ` set S) [''CHANNELS'', ''FACTOR'', ''RANGE_MILLIUNIT'']"

definition two_byte_setting :: "py_enum \<Rightarrow> string \<Rightarrow> bool" where
  "two_byte_setting S name \<longleftrightarrow>
     name \<in> fst ` set S \<and> name \<notin> set [''CHANNELS'', ''FACTOR'', ''RANGE_MILLIUNIT'']"

definition u16 :: "int \<Rightarrow> bool" where
  "u16 x \<longleftrightarrow> 0 \<le> x \<and> x < 65536"

fun two_byte_value :: "pmd_value \<Rightarrow> bool" where
  "two_byte_value (Scalar x) = u16 x"
| "two_byte_value (Values xs) = (length xs \<noteq> 1 \<and> length xs \<le> 255 \<and> list_all u16 xs)"

definition roundtrip_params :: "py_enum \<Rightarrow> pmd_params \<Rightarrow> bool" where
  "roundtrip_params S m \<longleftrightarrow>
     distinct (map fst m) \<and>
     list_all (\<lambda>item. two_byte_setting S (fst item) \<and> two_byte_value (snd item)) m \<and>
     (m = [] \<or> snd (last m) \<noteq> Values [])"

text \<open>
  Closed forms, used in the proofs, of what \<open>serialize_pmd_parameters\<close> writes for a
  two-byte value, for a setting's value and for an entry of the dictionary.
\<close>

definition enc2 :: "int \<Rightarrow> byte list" where
  "enc2 x = [word_of_int x, word_of_int (x div 256)]"

fun value_bytes :: "pmd_value \<Rightarrow> byte list" where
  "value_bytes (Scalar x) = 1 # enc2 x"
| "value_bytes (Values xs) = word_of_int (int (length xs)) # concat (map enc2 xs)"

definition entry_bytes :: "py_enum \<Rightarrow> string \<times> pmd_value \<Rightarrow> byte list" where
  "entry_bytes S item =
     word_of_int (case map_of S (fst item) of Some v \<Rightarrow> v | None \<Rightarrow> 0) # value_bytes (snd item)"

text \<open>
  Modelled from the spec: \<open>core/enums.py\<close> is missing, so this table of PMDSetting is
  an instance only, used to run the definitions on concrete inputs. The member names
  are the spec's SettingId (section 3); the values of SAMPLE_RATE, RESOLUTION and RANGE
  are those in the byte strings of \<open>tests/test_utils.py\<close>, the other three are numbered
  on from them.
\<close>

definition PMDSetting_example :: py_enum where
  "PMDSetting_example =
     [(''SAMPLE_RATE'', 0), (''RESOLUTION'', 1), (''RANGE'', 2),
      (''RANGE_MILLIUNIT'', 3), (''CHANNELS'', 4), (''FACTOR'', 5)]"

text \<open>
  The offsets at which the \<open>while\<close> loop of \<open>deserialize_pmd_parameters\<close> starts a
  round: 0, and the offset a round ends at.
\<close>

inductive entry_start :: "py_enum \<Rightarrow> byte list \<Rightarrow> nat \<Rightarrow> bool" for S data where
  first_entry: "entry_start S data 0"
| next_entry: "entry_start S data offset \<Longrightarrow> offset + 2 < length data \<Longrightarrow>
     enum_call S (uint (data ! offset)) = Inr setting_type \<Longrightarrow>
     get_setting_size S (Member setting_type) = Inr value_size \<Longrightarrow>
     entry_start S data (fst (read_entry data value_size offset))"

code_pred entry_start .


subsection \<open>Notions and instances for the device interface\<close>


text \<open>
  Modelled from the spec: \<open>core/enums.py\<close> is missing, so these tables are an instance
  only, used to run the definitions on concrete inputs. The member names are those that
  \<open>core/polar_h10.py\<close> refers to; ECG and ACC have the values of the NotificationType
  members they are converted to and from; the other values are sample values.
\<close>

definition enums_example :: enums where
  "enums_example =
     \<lparr>PMDSetting = PMDSetting_example,
      PMDMeasurement = [(''ECG'', 0), (''ACC'', 2)],
      PMDCommand = [(''GET_MEASUREMENT_SETTINGS'', 1), (''START_MEASUREMENT'', 2),
                    (''STOP_MEASUREMENT'', 3)],
      PMDStatus = [(''SUCCESS'', 0), (''ERROR_INVALID_STATE'', 6)]\<rparr>"

text \<open>
  An object with callbacks (named by strings) for ECG and the heart rate, and an ECG
  stream at 130 Hz.
\<close>

definition polar_h10_example :: "string polar_h10" where
  "polar_h10_example =
     \<lparr>callbacks = [ECG \<mapsto> ''save_ecg_data'', HEAR_RATE \<mapsto> ''print_hr''],
      p_timestamp = [ECG \<mapsto> 0],
      config = [HEAR_RATE \<mapsto> [], DISCONNECT \<mapsto> [], BATTERY_LVL \<mapsto> [],
                ECG \<mapsto> [(''SAMPLE_RATE'', Values [130]), (''RESOLUTION'', Values [14])]],
      current_config = [ECG \<mapsto> Some [(''SAMPLE_RATE'', 130), (''RESOLUTION'', 14)],
                        HEAR_RATE \<mapsto> None],
      device_time_delta = 0\<rparr>"

text \<open>
  An ECG data notification: measurement 0, device timestamp 23076922, frame type 0 and
  the three samples -1000, 900 and 5; and the same with the frame type 1.
\<close>

definition ecg_frame_example :: "byte list" where
  "ecg_frame_example =
     [0, 58, 32, 96, 1, 0, 0, 0, 0, 0, 24, 252, 255, 132, 3, 0, 5, 0, 0]"

definition ecg_frame_unsupported :: "byte list" where
  "ecg_frame_unsupported =
     [0, 58, 32, 96, 1, 0, 0, 0, 0, 1, 24, 252, 255, 132, 3, 0, 5, 0, 0]"

text \<open>
  A transport on which enabling the heart-rate notifications succeeds and every request
  is answered with the status 6 and no parameters.
\<close>

definition transport_refusing :: transport where
  "transport_refusing =
     \<lparr>enable_hr_notification = None,
      pmd_control_point_request = (\<lambda>command measurement payload. Inr (6, []))\<rparr>"

text \<open>
  The test of \<open>get_timestamps_list\<close> for lost samples: the observed spacing
  \<open>(timestamp - previous) // n_samples\<close> is more than a tenth of the ideal spacing
  \<open>10^9 // sample_rate\<close> away from it.
\<close>

definition samples_lost :: "int \<Rightarrow> int \<Rightarrow> int \<Rightarrow> int \<Rightarrow> bool" where
  "samples_lost n_samples sample_rate timestamp previous \<longleftrightarrow>
     10 * \<bar>(timestamp - previous) div n_samples - 1000000000 div sample_rate\<bar>
       > 1000000000 div sample_rate"

text \<open>
  The timestamps of a frame as the specification words them: \<open>previous + spacing *
  (i + 1) + delta\<close> for \<open>i\<close> in \<open>[0, n_samples)\<close>, where the spacing is the observed
  one, or, when samples were lost, the ideal one, with \<open>previous\<close> rebased to
  \<open>timestamp - n_samples * ideal\<close>.
\<close>

definition frame_times :: "int \<Rightarrow> int \<Rightarrow> int \<Rightarrow> int \<Rightarrow> int \<Rightarrow> int list" where
  "frame_times n_samples sample_rate timestamp previous delta =
     (let ideal = 1000000000 div sample_rate;
          observed = (timestamp - previous) div n_samples;
          lost = samples_lost n_samples sample_rate timestamp previous;
          spacing = (if lost then ideal else observed);
          start = (if lost then timestamp - n_samples * ideal else previous)
      in map (\<lambda>i. start + spacing * (int i + 1) + delta) [0..<nat n_samples])"

text \<open>The same object before anything is registered.\<close>

definition polar_h10_idle :: "string polar_h10" where
  "polar_h10_idle =
     \<lparr>callbacks = Map.empty,
      p_timestamp = Map.empty,
      config = [HEAR_RATE \<mapsto> [], DISCONNECT \<mapsto> [], BATTERY_LVL \<mapsto> [],
                ECG \<mapsto> [(''SAMPLE_RATE'', Values [130]), (''RESOLUTION'', Values [14])]],
      current_config = Map.empty,
      device_time_delta = 0\<rparr>"



section \<open>Properties of the parameter codec\<close>

lemma to_bytes_2: "u16 x \<Longrightarrow> to_bytes x 2 = Inr (enc2 x)"
  by (simp add: to_bytes_def u16_def enc2_def upt_rec numeral_2_eq_2)

lemma to_bytes_1: "0 \<le> x \<Longrightarrow> x < 256 \<Longrightarrow> to_bytes x (Suc 0) = Inr [word_of_int x]"
  by (simp add: to_bytes_def)

lemma from_bytes_enc2: "u16 x \<Longrightarrow> from_bytes (enc2 x) = x"
proof -
  assume "u16 x"
  then have x: "0 \<le> x" "x < 65536" by (simp_all add: u16_def)
  have a: "uint (word_of_int x :: byte) = x mod 256" by (simp add: uint_word_of_int)
  have b: "uint (word_of_int (x div 256) :: byte) = x div 256"
    using x by (simp add: uint_word_of_int)
  show ?thesis by (simp add: enc2_def a b)
qed

lemma update_fresh: "k \<notin> fst ` set al \<Longrightarrow> AList.update k v al = al @ [(k, v)]"
  by (induction al) auto


lemma find_snd_distinct:
  "distinct (map snd S) \<Longrightarrow> (k, v) \<in> set S \<Longrightarrow> find (\<lambda>p. snd p = v) S = Some (k, v)"
  by (induction S) (auto simp: image_iff)

lemma snd_distinct_same:
  assumes "distinct (map snd S)" "(a, v) \<in> set S" "(b, v) \<in> set S"
  shows "a = b"
proof -
  have "find (\<lambda>p. snd p = v) S = Some (a, v)"
    using assms(1,2) by (rule find_snd_distinct)
  moreover have "find (\<lambda>p. snd p = v) S = Some (b, v)"
    using assms(1,3) by (rule find_snd_distinct)
  ultimately show ?thesis by simp
qed

lemma enum_member_of_name:
  assumes "distinct (map fst S)" "name \<in> fst ` set S"
  obtains v where "map_of S name = Some v" "(name, v) \<in> set S"
proof -
  from assms(2) obtain v where "(name, v) \<in> set S" by auto
  with assms(1) have "map_of S name = Some v" by simp
  with \<open>(name, v) \<in> set S\<close> show ?thesis by (rule that [rotated])
qed

lemma two_byte_setting_facts:
  assumes ok: "pmd_setting_enum_ok S" and k: "two_byte_setting S k"
  obtains v where "enum_getitem S k = Inr v" "0 \<le> v" "v < 256"
    "enum_call S v = Inr v" "enum_name S v = k"
    "get_setting_size S (Name k) = Inr 2" "get_setting_size S (Member v) = Inr 2"
proof -
  from ok have dn: "distinct (map fst S)" and dv: "distinct (map snd S)"
    and rng: "list_all (\<lambda>p. 0 \<le> snd p \<and> snd p < 256) S"
    and c: "''CHANNELS'' \<in> fst ` set S" and f: "''FACTOR'' \<in> fst ` set S"
    and r: "''RANGE_MILLIUNIT'' \<in> fst ` set S"
    by (simp_all add: pmd_setting_enum_ok_def)
  from k have kin: "k \<in> fst ` set S" and kc: "k \<noteq> ''CHANNELS''" and kf: "k \<noteq> ''FACTOR''"
    and kr: "k \<noteq> ''RANGE_MILLIUNIT''"
    by (simp_all add: two_byte_setting_def)
  from dn kin obtain v where v: "map_of S k = Some v" "(k, v) \<in> set S"
    by (rule enum_member_of_name)
  from dn c obtain vc where vc: "map_of S ''CHANNELS'' = Some vc" "(''CHANNELS'', vc) \<in> set S"
    by (rule enum_member_of_name)
  from dn f obtain vf where vf: "map_of S ''FACTOR'' = Some vf" "(''FACTOR'', vf) \<in> set S"
    by (rule enum_member_of_name)
  from dn r obtain vr where vr: "map_of S ''RANGE_MILLIUNIT'' = Some vr"
    "(''RANGE_MILLIUNIT'', vr) \<in> set S"
    by (rule enum_member_of_name)
  have nc: "v \<noteq> vc" using snd_distinct_same [OF dv v(2)] vc(2) kc by blast
  have nf: "v \<noteq> vf" using snd_distinct_same [OF dv v(2)] vf(2) kf by blast
  have nr: "v \<noteq> vr" using snd_distinct_same [OF dv v(2)] vr(2) kr by blast
  have b: "0 \<le> v \<and> v < 256" using rng v(2) by (auto simp: list_all_iff)
  have 1: "enum_getitem S k = Inr v" by (simp add: enum_getitem_def v(1))
  have 2: "enum_call S v = Inr v" using v(2) by (force simp: enum_call_def)
  have 3: "enum_name S v = k" by (simp add: enum_name_def find_snd_distinct [OF dv v(2)])
  have 4: "get_setting_size S (Name k) = Inr 2"
    by (simp add: get_setting_size_def enum_attr_def vc(1) vf(1) vr(1))
  have 5: "get_setting_size S (Member v) = Inr 2"
    by (simp add: get_setting_size_def enum_attr_def vc(1) vf(1) vr(1) nc nf nr)
  from 1 b 2 3 4 5 show ?thesis using that by blast
qed

lemma serialize_values_two_byte:
  "get_setting_size S (Name k) = Inr 2 \<Longrightarrow> list_all u16 xs \<Longrightarrow>
   serialize_values S k xs = Inr (concat (map enc2 xs))"
  by (induction xs) (simp_all add: to_bytes_2)

lemma serialize_item_two_byte:
  assumes "enum_getitem S k = Inr v" "0 \<le> v" "v < 256" "get_setting_size S (Name k) = Inr 2"
    "two_byte_value val"
  shows "serialize_item S (k, val) = Inr (word_of_int v # value_bytes val)"
proof (cases val)
  case (Scalar x)
  with assms show ?thesis by (simp add: serialize_item_def to_bytes_1 to_bytes_2)
next
  case (Values xs)
  with assms show ?thesis
    by (simp add: serialize_item_def to_bytes_1 serialize_values_two_byte)
qed


lemma slice_append_mid: "slice (pre @ xs @ rest) (length pre) (length pre + length xs) = xs"
  by (simp add: slice_def)

lemma length_enc2: "length (enc2 x) = 2"
  by (simp add: enc2_def)

lemma read_values_enc:
  "list_all u16 xs \<Longrightarrow>
   read_values (pre @ concat (map enc2 xs) @ rest) 2 (length xs) (length pre) acc =
     (length pre + 2 * length xs, acc @ xs)"
proof (induction xs arbitrary: pre acc)
  case Nil
  show ?case by simp
next
  case (Cons x xs)
  from Cons.prems have x: "u16 x" and xs: "list_all u16 xs" by simp_all
  let ?data = "pre @ concat (map enc2 (x # xs)) @ rest"
  have data: "?data = (pre @ enc2 x) @ concat (map enc2 xs) @ rest" by simp
  have sl: "slice ?data (length pre) (length pre + 2) = enc2 x"
    using slice_append_mid [of pre "enc2 x" "concat (map enc2 xs) @ rest"]
    by (simp add: length_enc2)
  have len: "\<not> length pre + 2 > length ?data" by (simp add: length_enc2)
  have "read_values ?data 2 (length (x # xs)) (length pre) acc =
      read_values ?data 2 (length xs) (length pre + 2) (acc @ [x])"
    using len sl by (simp add: from_bytes_enc2 [OF x])
  also have "\<dots> = read_values ((pre @ enc2 x) @ concat (map enc2 xs) @ rest) 2 (length xs)
      (length (pre @ enc2 x)) (acc @ [x])"
    by (simp add: length_enc2)
  also have "\<dots> = (length (pre @ enc2 x) + 2 * length xs, (acc @ [x]) @ xs)"
    by (rule Cons.IH [OF xs])
  finally show ?case by (simp add: length_enc2)
qed

lemma length_value_bytes_pos: "0 < length (value_bytes val)"
  by (cases val) simp_all

lemma read_entry_enc:
  assumes "two_byte_value val"
  shows "read_entry (pre @ idb # value_bytes val @ rest) 2 (length pre) =
     (length pre + 1 + length (value_bytes val), val)"
proof (cases val)
  case (Scalar x)
  with assms have x: "u16 x" by simp
  let ?data = "pre @ idb # value_bytes val @ rest"
  have cnt: "?data ! (length pre + 1) = 1" by (simp add: Scalar nth_append)
  have "?data = (pre @ [idb, 1]) @ enc2 x @ rest" by (simp add: Scalar)
  then have "slice ?data (length (pre @ [idb, 1])) (length (pre @ [idb, 1]) + length (enc2 x)) = enc2 x"
    by (simp only: slice_append_mid)
  then have sl: "slice ?data (length pre + 2) (length pre + 2 + 2) = enc2 x"
    by (simp add: length_enc2)
  show ?thesis
    unfolding read_entry_def cnt using sl
    by (simp add: Scalar from_bytes_enc2 [OF x] length_enc2)
next
  case (Values xs)
  with assms have n: "length xs \<noteq> 1" "length xs \<le> 255" and xs: "list_all u16 xs" by simp_all
  let ?data = "pre @ idb # value_bytes val @ rest"
  have "?data ! (length pre + 1) = word_of_int (int (length xs))" by (simp add: Values nth_append)
  moreover have "unat (word_of_int (int (length xs)) :: byte) = length xs"
    using n(2) by (simp add: unat_of_nat)
  ultimately have cnt: "unat (?data ! (length pre + 1)) = length xs" by simp
  have data: "?data = (pre @ [idb, word_of_int (int (length xs))]) @ concat (map enc2 xs) @ rest"
    by (simp add: Values)
  have "read_values ?data 2 (length xs) (length (pre @ [idb, word_of_int (int (length xs))])) [] =
      (length (pre @ [idb, word_of_int (int (length xs))]) + 2 * length xs, [] @ xs)"
    unfolding data by (rule read_values_enc [OF xs])
  then have rv: "read_values ?data 2 (length xs) (length pre + 2) [] =
      (length pre + 2 + 2 * length xs, xs)"
    by simp
  have lb: "length (value_bytes val) = 1 + 2 * length xs"
    by (simp add: Values length_concat o_def length_enc2 sum_list_triv)
  show ?thesis
    unfolding read_entry_def cnt Let_def using n(1) rv lb by (simp add: Values)
qed


lemma serialize_two_byte:
  assumes ok: "pmd_setting_enum_ok S"
  shows "list_all (\<lambda>item. two_byte_setting S (fst item) \<and> two_byte_value (snd item)) m \<Longrightarrow>
     serialize_pmd_parameters S m = Inr (concat (map (entry_bytes S) m))"
proof (induction m)
  case Nil
  show ?case by simp
next
  case (Cons item m)
  obtain k val where item: "item = (k, val)" by (cases item)
  from Cons.prems item have k: "two_byte_setting S k" and val: "two_byte_value val"
    and rest: "list_all (\<lambda>item. two_byte_setting S (fst item) \<and> two_byte_value (snd item)) m"
    by simp_all
  from ok k obtain v where v: "enum_getitem S k = Inr v" "0 \<le> v" "v < 256"
    "get_setting_size S (Name k) = Inr 2"
    by (rule two_byte_setting_facts)
  from v(1) have "map_of S k = Some v"
    by (simp add: enum_getitem_def split: option.splits)
  then have eb: "entry_bytes S (k, val) = word_of_int v # value_bytes val"
    by (simp add: entry_bytes_def)
  have "serialize_item S (k, val) = Inr (word_of_int v # value_bytes val)"
    by (rule serialize_item_two_byte [OF v val])
  then have "serialize_item S item = Inr (entry_bytes S item)"
    by (simp only: eb item)
  with Cons.IH [OF rest] show ?case by simp
qed

lemma deserialize_loop_enc:
  assumes ok: "pmd_setting_enum_ok S"
  shows "list_all (\<lambda>item. two_byte_setting S (fst item) \<and> two_byte_value (snd item)) m \<Longrightarrow>
     distinct (map fst m) \<Longrightarrow> fst ` set m \<inter> fst ` set acc = {} \<Longrightarrow>
     m = [] \<or> snd (last m) \<noteq> Values [] \<Longrightarrow>
     deserialize_loop S (pre @ concat (map (entry_bytes S) m)) (length pre) acc = Inr (acc @ m)"
proof (induction m arbitrary: pre acc)
  case Nil
  show ?case by (simp add: deserialize_loop.simps)
next
  case (Cons item m)
  obtain k val where item: "item = (k, val)" by (cases item)
  from Cons.prems(1) item have k: "two_byte_setting S k" and val: "two_byte_value val"
    and rest: "list_all (\<lambda>item. two_byte_setting S (fst item) \<and> two_byte_value (snd item)) m"
    by simp_all
  from ok k obtain v where v: "enum_getitem S k = Inr v" "0 \<le> v" "v < 256"
    "enum_call S v = Inr v" "enum_name S v = k" "get_setting_size S (Member v) = Inr 2"
    by (rule two_byte_setting_facts)
  from v(1) have "map_of S k = Some v"
    by (simp add: enum_getitem_def split: option.splits)
  then have eb: "entry_bytes S item = word_of_int v # value_bytes val"
    by (simp add: entry_bytes_def item)
  define tail where "tail = concat (map (entry_bytes S) m)"
  define data where "data = pre @ word_of_int v # value_bytes val @ tail"
  have goal_data: "pre @ concat (map (entry_bytes S) (item # m)) = data"
    by (simp add: data_def tail_def eb)
  have data': "data = (pre @ entry_bytes S item) @ concat (map (entry_bytes S) m)"
    by (simp add: data_def tail_def eb)
  have "data ! length pre = (word_of_int v :: byte)"
    by (simp add: data_def)
  then have idb: "uint (data ! length pre) = v"
    using v(2,3) by (simp add: uint_word_of_int)
  have re: "read_entry data 2 (length pre) = (length pre + 1 + length (value_bytes val), val)"
    unfolding data_def by (rule read_entry_enc [OF val])
  have long: "length pre + 2 < length data"
  proof (cases "val = Values []")
    case False
    have "2 \<le> length (value_bytes val)"
    proof (cases val)
      case (Scalar x)
      then show ?thesis by (simp add: length_enc2)
    next
      case (Values xs)
      with False obtain y ys where "xs = y # ys" by (cases xs) auto
      with Values show ?thesis by (simp add: length_enc2)
    qed
    then show ?thesis by (simp add: data_def)
  next
    case True
    with Cons.prems(4) item have "m \<noteq> []" by auto
    then obtain item' m' where m: "m = item' # m'" by (cases m) auto
    have "length (entry_bytes S item') = 1 + length (value_bytes (snd item'))"
      by (simp add: entry_bytes_def)
    moreover have "length tail =
        length (entry_bytes S item') + length (concat (map (entry_bytes S) m'))"
      by (simp add: m tail_def)
    ultimately have "1 \<le> length tail" by linarith
    moreover have "1 \<le> length (value_bytes val)"
      using length_value_bytes_pos [of val] by linarith
    moreover have "length data = length pre + 1 + length (value_bytes val) + length tail"
      by (simp add: data_def)
    ultimately show ?thesis by linarith
  qed
  have fresh: "k \<notin> fst ` set acc" using Cons.prems(3) item by auto
  have d: "distinct (map fst m)" using Cons.prems(2) by simp
  have disj: "fst ` set m \<inter> fst ` set (acc @ [(k, val)]) = {}"
    using Cons.prems(2,3) item by auto
  have lst: "m = [] \<or> snd (last m) \<noteq> Values []"
    using Cons.prems(4) by (cases m) auto
  have len': "length (pre @ entry_bytes S item) = length pre + 1 + length (value_bytes val)"
    by (simp add: eb)
  have "deserialize_loop S data (length pre) acc =
      deserialize_loop S data (length pre + 1 + length (value_bytes val)) (acc @ [(k, val)])"
    by (subst deserialize_loop.simps)
      (simp only: long if_True idb v(4) v(6) py_bind_simps re fst_conv snd_conv v(5)
        update_fresh [OF fresh])
  also have "\<dots> = deserialize_loop S ((pre @ entry_bytes S item) @ concat (map (entry_bytes S) m))
      (length (pre @ entry_bytes S item)) (acc @ [(k, val)])"
    by (simp only: data' len')
  also have "\<dots> = Inr ((acc @ [(k, val)]) @ m)"
    by (rule Cons.IH [OF rest d disj lst])
  finally have "deserialize_loop S data (length pre) acc = Inr (acc @ item # m)"
    by (simp add: item)
  then show ?case by (simp only: goal_data)
qed

text \<open>
  C1 (amended). Decoding what \<open>serialize_pmd_parameters\<close> wrote gives the dictionary
  back, entries and list elements in their order, for every dictionary whose keys are
  distinct settings of the default two-byte width (any member but CHANNELS, FACTOR and
  RANGE_MILLIUNIT), whose values are integers in \<open>[0, 65536)\<close> or lists of such
  integers of a length other than 1 and at most 255, and whose last entry is not an
  empty list.
\<close>

theorem roundtrip_two_byte:
  assumes "pmd_setting_enum_ok S" and "roundtrip_params S m"
  shows "\<exists>data. serialize_pmd_parameters S m = Inr data \<and>
     deserialize_pmd_parameters S data = Inr m"
proof -
  from assms(2) have m: "list_all (\<lambda>item. two_byte_setting S (fst item) \<and> two_byte_value (snd item)) m"
    "distinct (map fst m)" "m = [] \<or> snd (last m) \<noteq> Values []"
    by (simp_all add: roundtrip_params_def)
  have "serialize_pmd_parameters S m = Inr (concat (map (entry_bytes S) m))"
    using assms(1) m(1) by (rule serialize_two_byte)
  moreover have "deserialize_loop S ([] @ concat (map (entry_bytes S) m)) (length ([] :: byte list)) [] = Inr ([] @ m)"
    using assms(1) m(1,2) _ m(3) by (rule deserialize_loop_enc) simp
  ultimately show ?thesis by (simp add: deserialize_pmd_parameters_def)
qed

theorem roundtrip_two_byte_witness:
  "pmd_setting_enum_ok PMDSetting_example \<and>
   roundtrip_params PMDSetting_example
     [(''SAMPLE_RATE'', Values [25, 50, 100, 200]), (''RESOLUTION'', Scalar 16),
      (''RANGE'', Values [2, 4, 8])] \<and>
   (\<exists>data. serialize_pmd_parameters PMDSetting_example
        [(''SAMPLE_RATE'', Values [25, 50, 100, 200]), (''RESOLUTION'', Scalar 16),
         (''RANGE'', Values [2, 4, 8])] = Inr data \<and>
      deserialize_pmd_parameters PMDSetting_example data =
        Inr [(''SAMPLE_RATE'', Values [25, 50, 100, 200]), (''RESOLUTION'', Scalar 16),
             (''RANGE'', Values [2, 4, 8])])"
proof -
  have ok: "pmd_setting_enum_ok PMDSetting_example"
    by (simp add: pmd_setting_enum_ok_def PMDSetting_example_def)
  have m: "roundtrip_params PMDSetting_example
     [(''SAMPLE_RATE'', Values [25, 50, 100, 200]), (''RESOLUTION'', Scalar 16),
      (''RANGE'', Values [2, 4, 8])]"
    by (simp add: roundtrip_params_def two_byte_setting_def PMDSetting_example_def u16_def)
  from ok m roundtrip_two_byte [OF ok m] show ?thesis by simp
qed

text \<open>
  The round trip as C1 states it fails for a list of one element: the count byte 1 is
  decoded as a scalar, so \<open>{"SAMPLE_RATE": [25]}\<close> comes back as
  \<open>{"SAMPLE_RATE": 25}\<close>.
\<close>

theorem roundtrip_singleton_list_counterexample:
  "serialize_pmd_parameters PMDSetting_example [(''SAMPLE_RATE'', Values [25])] = Inr [0, 1, 25, 0] \<and>
   deserialize_pmd_parameters PMDSetting_example [0, 1, 25, 0] = Inr [(''SAMPLE_RATE'', Scalar 25)] \<and>
   deserialize_pmd_parameters PMDSetting_example [0, 1, 25, 0] \<noteq> Inr [(''SAMPLE_RATE'', Values [25])]"
  by code_simp

text \<open>
  The settings of another width do not come back either: the encoder asks
  \<open>get_setting_size\<close> for the width of the setting's name and so writes two bytes for
  every value, and the decoder reads them at the width of the member.
\<close>

lemma width_slip_example:
  "serialize_pmd_parameters PMDSetting_example [(''CHANNELS'', Values [1, 2])] =
     Inr [4, 2, 1, 0, 2, 0] \<and>
   deserialize_pmd_parameters PMDSetting_example [4, 2, 1, 0, 2, 0] =
     Inr [(''CHANNELS'', Values [1, 0])]"
  by code_simp

text \<open>
  C2. A trailing entry with count 1 and fewer bytes left than the setting's width is not
  left out: the bytes \<open>00 01 19\<close> (SAMPLE_RATE, count 1, one byte of a two-byte
  value) decode to \<open>{"SAMPLE_RATE": 25}\<close>, the value read from the one byte that is
  there. Only the list branch stops at a value that would pass the end of the data:
  \<open>00 02 19\<close> decodes to \<open>{"SAMPLE_RATE": []}\<close>.
\<close>

theorem deserialize_truncated_scalar:
  "deserialize_pmd_parameters PMDSetting_example [0, 1, 25] = Inr [(''SAMPLE_RATE'', Scalar 25)] \<and>
   deserialize_pmd_parameters PMDSetting_example [0, 2, 25] = Inr [(''SAMPLE_RATE'', Values [])]"
  by code_simp




text \<open>
  No other byte makes the decoder raise: when the three members \<open>get_setting_size\<close>
  names exist, and the byte at every offset where the loop starts an entry is the value
  of a member, \<open>deserialize_pmd_parameters\<close> returns a dictionary, whatever the
  counts and however short the last entry.
\<close>

lemma deserialize_loop_returns:
  assumes "entry_start S data offset"
    and "\<And>m. \<exists>n. get_setting_size S (Member m) = Inr n"
    and "\<And>offset'. entry_start S data offset' \<Longrightarrow> offset' + 2 < length data \<Longrightarrow>
      uint (data ! offset') \<in> snd ` set S"
  shows "\<exists>result. deserialize_loop S data offset params = Inr result"
  using assms
proof (induction S data offset params rule: deserialize_loop.induct)
  case (1 S data offset params)
  show ?case
  proof (cases "offset + 2 < length data")
    case False
    then show ?thesis by (subst deserialize_loop.simps) simp
  next
    case True
    with "1.prems"(1,3) have c: "enum_call S (uint (data ! offset)) = Inr (uint (data ! offset))"
      by (simp add: enum_call_def)
    from "1.prems"(2) obtain n where
      n: "get_setting_size S (Member (uint (data ! offset))) = Inr n"
      by blast
    have e: "entry_start S data (fst (read_entry data n offset))"
      using "1.prems"(1) True c n by (rule next_entry)
    have "\<exists>result. deserialize_loop S data (fst (read_entry data n offset))
        (AList.update (enum_name S (uint (data ! offset))) (snd (read_entry data n offset)) params) =
        Inr result"
      using True c n e "1.prems"(2,3) by (rule "1.IH")
    then show ?thesis
      using True c n by (subst deserialize_loop.simps) simp
  qed
qed

lemma deserialize_pmd_parameters_returns:
  assumes "\<And>m. \<exists>n. get_setting_size S (Member m) = Inr n"
    and "\<And>offset. entry_start S data offset \<Longrightarrow> offset + 2 < length data \<Longrightarrow>
      uint (data ! offset) \<in> snd ` set S"
  shows "\<exists>result. deserialize_pmd_parameters S data = Inr result"
  unfolding deserialize_pmd_parameters_def
  using first_entry assms by (rule deserialize_loop_returns)

section \<open>Properties of the heart-rate decoder\<close>

text \<open>
  C9. \<open>process_hr_samples\<close> returns the four reference dictionaries for the four
  reference payloads, and \<open>None\<close>, without raising, for every input shorter than two
  bytes.
\<close>

theorem process_hr_samples_reference:
  "process_hr_samples [0x01, 0x54] = Inr (Some [(''heart_rate'', IntV 84)]) \<and>
   process_hr_samples [0x17, 0x14, 0x01, 0x9f, 0x03] =
     Inr (Some [(''heart_rate'', IntV 276), (''sensor_contact'', BoolV True),
                (''rr_interval'', ListV [905])]) \<and>
   process_hr_samples [0x14, 0x54, 0x44, 0x03, 0x5f, 0x03] =
     Inr (Some [(''heart_rate'', IntV 84), (''sensor_contact'', BoolV False),
                (''rr_interval'', ListV [816, 842])]) \<and>
   process_hr_samples [0x1e, 0x54, 0x49, 0x00, 0x9f, 0x03] =
     Inr (Some [(''heart_rate'', IntV 84), (''sensor_contact'', BoolV True),
                (''energy_expended'', IntV 73), (''rr_interval'', ListV [905])]) \<and>
   (length data < 2 \<longrightarrow> process_hr_samples data = Inr None)"
proof -
  have 0: "process_hr_samples [0x01, 0x54] = Inr (Some [(''heart_rate'', IntV 84)])"
    by code_simp
  have 1: "process_hr_samples [0x17, 0x14, 0x01, 0x9f, 0x03] =
     Inr (Some [(''heart_rate'', IntV 276), (''sensor_contact'', BoolV True),
                (''rr_interval'', ListV [905])])"
    by code_simp
  have 2: "process_hr_samples [0x14, 0x54, 0x44, 0x03, 0x5f, 0x03] =
     Inr (Some [(''heart_rate'', IntV 84), (''sensor_contact'', BoolV False),
                (''rr_interval'', ListV [816, 842])])"
    by code_simp
  have 3: "process_hr_samples [0x1e, 0x54, 0x49, 0x00, 0x9f, 0x03] =
     Inr (Some [(''heart_rate'', IntV 84), (''sensor_contact'', BoolV True),
                (''energy_expended'', IntV 73), (''rr_interval'', ListV [905])])"
    by code_simp
  have 4: "length data < 2 \<longrightarrow> process_hr_samples data = Inr None"
    by (simp add: process_hr_samples_def)
  from 0 1 2 3 4 show ?thesis by (intro conjI)
qed

theorem process_hr_samples_reference_witness:
  "length [0x01 :: byte] < 2 \<and> process_hr_samples [0x01] = Inr None"
  using process_hr_samples_reference [of "[0x01]"] by simp

section \<open>Properties of the timestamp reconstruction\<close>

lemma float_overflow_large: "2 ^ 64 \<le> float_overflow"
  by (simp add: float_overflow_def)

text \<open>
  The list \<open>get_timestamps_list\<close> returns for a positive sample count, a sample rate of
  at most \<open>10^9\<close> and a frame that spans less than \<open>2^64\<close> ns: the spacing is the
  observed one unless it is more than 10 percent off the ideal one, and then the ideal one,
  counted back from the frame's timestamp.
\<close>

lemma get_timestamps_list_value:
  assumes n: "0 < n_samples" and r: "0 < sample_rate" "sample_rate \<le> 1000000000"
    and t: "previous \<le> timestamp" "timestamp - previous < 2 ^ 64"
  defines "ideal \<equiv> 1000000000 div sample_rate"
    and "observed \<equiv> (timestamp - previous) div n_samples"
  shows "get_timestamps_list n_samples sample_rate timestamp previous delta =
     Inr (map (\<lambda>i.
            (if 10 * \<bar>observed - ideal\<bar> > ideal then timestamp - n_samples * ideal else previous)
            + (if 10 * \<bar>observed - ideal\<bar> > ideal then ideal else observed) * (int i + 1)
            + delta)
          [0..<nat n_samples])"
proof -
  have i1: "1 \<le> ideal"
  proof -
    have "1000000000 div sample_rate \<ge> sample_rate div sample_rate"
      using r by (intro zdiv_mono1) simp_all
    with r show ?thesis by (simp add: ideal_def)
  qed
  have i2: "ideal \<le> 1000000000"
  proof -
    have "1000000000 div sample_rate \<le> 1000000000 div 1"
      using r by (intro zdiv_mono2) simp_all
    then show ?thesis by (simp add: ideal_def)
  qed
  have o1: "0 \<le> observed"
    using n t by (simp add: observed_def pos_imp_zdiv_nonneg_iff)
  have o2: "observed \<le> timestamp - previous"
  proof -
    have "(timestamp - previous) div n_samples \<le> (timestamp - previous) div 1"
      using n t by (intro zdiv_mono2) simp_all
    then show ?thesis by (simp add: observed_def)
  qed
  have "\<bar>observed - ideal\<bar> < 2 ^ 64"
    using i1 i2 o1 o2 t(2) by simp
  also have "(2 ^ 64 :: int) \<le> float_overflow" by (rule float_overflow_large)
  also have "float_overflow \<le> float_overflow * ideal"
    using i1 float_overflow_large by (simp add: mult_le_cancel_left1)
  finally have no: "\<not> float_overflow * ideal \<le> \<bar>observed - ideal\<bar>" by simp
  have nr: "\<not> float_overflow \<le> sample_rate"
    using r(2) float_overflow_large by simp
  have nz: "ideal \<noteq> 0" using i1 by simp
  show ?thesis
    unfolding get_timestamps_list_def Let_def ideal_def [symmetric] observed_def [symmetric]
    using n r(1) t(1) nr nz no by (simp add: algebra_simps)
qed

text \<open>
  C6 (amended). \<open>get_timestamps_list\<close> raises ValueError exactly when
  \<open>n_samples \<le> 0\<close>, \<open>sample_rate \<le> 0\<close> or \<open>timestamp < previous\<close>. For inputs that
  meet the three preconditions, with a sample rate of at most \<open>10^9\<close> Hz and a frame that
  spans less than \<open>2^64\<close> ns, it returns a list of exactly \<open>n_samples\<close> timestamps.
\<close>

theorem get_timestamps_list_contract:
  "(get_timestamps_list n_samples sample_rate timestamp previous delta = Inl ValueError \<longleftrightarrow>
      n_samples \<le> 0 \<or> sample_rate \<le> 0 \<or> timestamp < previous) \<and>
   (0 < n_samples \<and> 0 < sample_rate \<and> sample_rate \<le> 1000000000 \<and>
    previous \<le> timestamp \<and> timestamp - previous < 2 ^ 64 \<longrightarrow>
      (\<exists>time_list. get_timestamps_list n_samples sample_rate timestamp previous delta =
          Inr time_list \<and> int (length time_list) = n_samples))"
proof (intro conjI impI)
  show "get_timestamps_list n_samples sample_rate timestamp previous delta = Inl ValueError \<longleftrightarrow>
      n_samples \<le> 0 \<or> sample_rate \<le> 0 \<or> timestamp < previous"
    by (simp add: get_timestamps_list_def Let_def)
next
  assume a: "0 < n_samples \<and> 0 < sample_rate \<and> sample_rate \<le> 1000000000 \<and>
    previous \<le> timestamp \<and> timestamp - previous < 2 ^ 64"
  then have "0 < n_samples" "0 < sample_rate" "sample_rate \<le> 1000000000"
    "previous \<le> timestamp" "timestamp - previous < 2 ^ 64"
    by simp_all
  from get_timestamps_list_value [OF this, of delta] a
  show "\<exists>time_list. get_timestamps_list n_samples sample_rate timestamp previous delta =
      Inr time_list \<and> int (length time_list) = n_samples"
    by simp
qed

theorem get_timestamps_list_contract_witness:
  "get_timestamps_list 3 130 23076922 0 5 \<noteq> Inl ValueError \<and>
   (\<exists>time_list. get_timestamps_list 3 130 23076922 0 5 = Inr time_list \<and>
      int (length time_list) = 3)"
  using get_timestamps_list_contract [of 3 130 23076922 0 5] by simp

text \<open>
  The three preconditions alone do not make the call return: for a sample rate above
  \<open>10^9\<close> the ideal spacing \<open>int(1e9 // sample_rate)\<close> is 0 and the division by it
  raises ZeroDivisionError.
\<close>

theorem get_timestamps_list_fast_rate_counterexample:
  "get_timestamps_list 1 2000000000 0 0 0 = Inl ZeroDivisionError"
  by (simp add: get_timestamps_list_def float_overflow_def)

section \<open>Properties of the data handler\<close>

lemma from_bytes_bounds: "0 \<le> from_bytes bs \<and> from_bytes bs < 256 ^ length bs"
proof (induction bs)
  case Nil
  show ?case by simp
next
  case (Cons b bs)
  have "0 \<le> uint b" "uint b < 256"
    using uint_bounded [of b] by simp_all
  with Cons show ?case by simp
qed

lemma frame_timestamp_bounds:
  "0 \<le> from_bytes (slice data 1 9) \<and> from_bytes (slice data 1 9) < 2 ^ 64"
proof -
  have "length (slice data 1 9) \<le> 8" by (simp add: slice_def)
  then have "(256 :: int) ^ length (slice data 1 9) \<le> 256 ^ 8"
    by (intro power_increasing) simp_all
  with from_bytes_bounds [of "slice data 1 9"] show ?thesis by simp
qed

lemma current_sample_rate_delta [simp]:
  "current_sample_rate (st\<lparr>device_time_delta := d\<rparr>) notify_type = current_sample_rate st notify_type"
  by (simp add: current_sample_rate_def)

lemma deliver_pmd_frame_decoded:
  assumes kind: "NotificationType_call measurement_type = Inr notify_type"
    and cb: "callbacks st notify_type = Some callback"
    and dec: "decode_pmd_frame M measurement_type frame_type samples = Decoded n_samples processed"
    and rate: "current_sample_rate st notify_type = Inr sample_rate"
    and prev: "p_timestamp st notify_type = Some previous"
    and n: "0 < n_samples" and r: "0 < sample_rate" "sample_rate \<le> 1000000000"
    and t: "previous \<le> timestamp" "timestamp - previous < 2 ^ 64"
  shows "deliver_pmd_frame M measurement_type timestamp frame_type samples st =
     (Inr (Some (callback,
        (''time'', frame_times n_samples sample_rate timestamp previous (device_time_delta st))
          # processed)),
      st\<lparr>p_timestamp := (p_timestamp st)(notify_type \<mapsto> timestamp)\<rparr>)"
proof -
  have "get_timestamps_list n_samples sample_rate timestamp previous (device_time_delta st) =
      Inr (frame_times n_samples sample_rate timestamp previous (device_time_delta st))"
    unfolding frame_times_def samples_lost_def Let_def
    by (rule get_timestamps_list_value [OF n r t])
  then show ?thesis
    by (simp add: deliver_pmd_frame_def kind cb dec rate prev)
qed

lemma last_frame_times:
  assumes n: "0 < n_samples"
  shows "last (frame_times n_samples sample_rate timestamp previous delta) - delta =
     timestamp - (if samples_lost n_samples sample_rate timestamp previous then 0
                  else (timestamp - previous) mod n_samples)"
proof -
  from n have ne: "[0..<nat n_samples] \<noteq> []" by simp
  have l: "int (last [0..<nat n_samples]) + 1 = n_samples"
    using n by (simp add: last_upt)
  have "previous + (timestamp - previous) div n_samples * n_samples =
      timestamp - (timestamp - previous) mod n_samples"
    by (simp add: algebra_simps minus_mod_eq_mult_div [symmetric])
  then show ?thesis
    unfolding frame_times_def Let_def by (simp add: last_map [OF ne] l)
qed

text \<open>
  \<open>_handle_pmd_data\<close> for a notification with its ten header bytes and a defined
  measurement: the clock is resynchronised first, then the frame is delivered.
\<close>

lemma handle_pmd_data_header:
  assumes "10 \<le> length data" and "enum_call M (uint (data ! 0)) = Inr measurement_type"
  shows "handle_pmd_data M now data st =
     (if \<bar>now - from_bytes (slice data 1 9) - device_time_delta st\<bar> > 1000000000 \<and>
         float_overflow \<le> \<bar>now - from_bytes (slice data 1 9) - device_time_delta st\<bar>
      then (Inl OverflowError, st\<lparr>device_time_delta := now - from_bytes (slice data 1 9)\<rparr>)
      else deliver_pmd_frame M measurement_type (from_bytes (slice data 1 9)) (uint (data ! 9))
             (drop 10 data)
             (st\<lparr>device_time_delta :=
                 (if \<bar>now - from_bytes (slice data 1 9) - device_time_delta st\<bar> > 1000000000
                  then now - from_bytes (slice data 1 9) else device_time_delta st)\<rparr>))"
proof -
  from assms(1) have "\<not> length data < 1" "\<not> length data < 10" by auto
  then show ?thesis
    unfolding handle_pmd_data_def Let_def assms(2) by (simp del: One_nat_def)
qed

text \<open>
  C3 (amended). For a frame of a kind with a callback, with \<open>n_samples > 0\<close>, a sample
  rate in \<open>(0, 10^9]\<close> and a timestamp not before the stored previous one, the handler
  calls the callback with the timestamps \<open>previous + spacing * (i + 1) +
  device_time_delta\<close> for \<open>i\<close> in \<open>[0, n_samples)\<close>: the spacing is the observed one
  \<open>(timestamp - previous) // n_samples\<close> if it is at most 10 percent off the ideal one
  \<open>10^9 // sample_rate\<close>, and otherwise the ideal one with \<open>previous\<close> rebased to
  \<open>timestamp - n_samples * ideal\<close>. The stored previous timestamp becomes the frame's
  timestamp: that is the last emitted value before adding \<open>device_time_delta\<close> after a
  rebase, and \<open>(timestamp - previous) mod n_samples\<close> more than it otherwise.
\<close>

theorem handle_pmd_data_timestamps:
  assumes len: "10 \<le> length data"
    and mt: "enum_call M (uint (data ! 0)) = Inr measurement_type"
    and kind: "NotificationType_call measurement_type = Inr notify_type"
    and cb: "callbacks st notify_type = Some callback"
    and dec: "decode_pmd_frame M measurement_type (uint (data ! 9)) (drop 10 data) =
      Decoded n_samples processed"
    and rate: "current_sample_rate st notify_type = Inr sample_rate"
    and prev: "p_timestamp st notify_type = Some previous"
    and n: "0 < n_samples" and r: "0 < sample_rate" "sample_rate \<le> 1000000000"
    and p: "0 \<le> previous" "previous \<le> from_bytes (slice data 1 9)"
    and host: "\<bar>now - from_bytes (slice data 1 9) - device_time_delta st\<bar> < float_overflow"
  defines "timestamp \<equiv> from_bytes (slice data 1 9)"
  defines "delta \<equiv> (if \<bar>now - timestamp - device_time_delta st\<bar> > 1000000000
      then now - timestamp else device_time_delta st)"
  shows "handle_pmd_data M now data st =
     (Inr (Some (callback,
        (''time'', frame_times n_samples sample_rate timestamp previous delta) # processed)),
      st\<lparr>device_time_delta := delta,
         p_timestamp := (p_timestamp st)(notify_type \<mapsto> timestamp)\<rparr>) \<and>
     frame_times n_samples sample_rate timestamp previous delta =
       map (\<lambda>i. (if samples_lost n_samples sample_rate timestamp previous
                  then timestamp - n_samples * (1000000000 div sample_rate) else previous)
               + (if samples_lost n_samples sample_rate timestamp previous
                  then 1000000000 div sample_rate else (timestamp - previous) div n_samples)
                 * (int i + 1)
               + delta) [0..<nat n_samples] \<and>
     last (frame_times n_samples sample_rate timestamp previous delta) - delta =
       timestamp - (if samples_lost n_samples sample_rate timestamp previous then 0
                    else (timestamp - previous) mod n_samples)"
proof (intro conjI)
  have t: "previous \<le> timestamp" "timestamp - previous < 2 ^ 64"
    using p frame_timestamp_bounds [of data] by (simp_all add: timestamp_def)
  let ?st = "st\<lparr>device_time_delta := delta\<rparr>"
  have d: "deliver_pmd_frame M measurement_type timestamp (uint (data ! 9)) (drop 10 data) ?st =
     (Inr (Some (callback,
        (''time'', frame_times n_samples sample_rate timestamp previous (device_time_delta ?st))
          # processed)),
      ?st\<lparr>p_timestamp := (p_timestamp ?st)(notify_type \<mapsto> timestamp)\<rparr>)"
    by (rule deliver_pmd_frame_decoded [OF kind _ dec _ _ n r t]) (simp_all add: cb rate prev)
  show "handle_pmd_data M now data st =
     (Inr (Some (callback,
        (''time'', frame_times n_samples sample_rate timestamp previous delta) # processed)),
      st\<lparr>device_time_delta := delta,
         p_timestamp := (p_timestamp st)(notify_type \<mapsto> timestamp)\<rparr>)"
  proof -
    have "\<not> float_overflow \<le> \<bar>now - timestamp - device_time_delta st\<bar>"
      using host by (simp add: timestamp_def)
    then have "handle_pmd_data M now data st =
        deliver_pmd_frame M measurement_type timestamp (uint (data ! 9)) (drop 10 data) ?st"
      unfolding handle_pmd_data_header [OF len mt] timestamp_def [symmetric] delta_def
      by simp
    with d show ?thesis by simp
  qed
next
  show "frame_times n_samples sample_rate timestamp previous delta =
       map (\<lambda>i. (if samples_lost n_samples sample_rate timestamp previous
                  then timestamp - n_samples * (1000000000 div sample_rate) else previous)
               + (if samples_lost n_samples sample_rate timestamp previous
                  then 1000000000 div sample_rate else (timestamp - previous) div n_samples)
                 * (int i + 1)
               + delta) [0..<nat n_samples]"
    by (simp add: frame_times_def Let_def)
next
  show "last (frame_times n_samples sample_rate timestamp previous delta) - delta =
       timestamp - (if samples_lost n_samples sample_rate timestamp previous then 0
                    else (timestamp - previous) mod n_samples)"
    by (rule last_frame_times [OF n])
qed

lemma ecg_frame_example_facts:
  "10 \<le> length ecg_frame_example"
  "enum_call (PMDMeasurement enums_example) (uint (ecg_frame_example ! 0)) = Inr 0"
  "from_bytes (slice ecg_frame_example 1 9) = 23076922"
  "decode_pmd_frame (PMDMeasurement enums_example) 0 (uint (ecg_frame_example ! 9))
     (drop 10 ecg_frame_example) = Decoded 3 [(''lead_1'', [- 1000, 900, 5])]"
  by code_simp+

lemma polar_h10_example_facts:
  "callbacks polar_h10_example ECG = Some ''save_ecg_data''"
  "current_sample_rate polar_h10_example ECG = Inr 130"
  "p_timestamp polar_h10_example ECG = Some 0"
  "device_time_delta polar_h10_example = 0"
  by (simp_all add: polar_h10_example_def current_sample_rate_def)

theorem handle_pmd_data_timestamps_witness:
  "handle_pmd_data (PMDMeasurement enums_example) 23076930 ecg_frame_example polar_h10_example =
     (Inr (Some (''save_ecg_data'',
        [(''time'', frame_times 3 130 23076922 0 0), (''lead_1'', [- 1000, 900, 5])])),
      polar_h10_example\<lparr>device_time_delta := 0,
         p_timestamp := (p_timestamp polar_h10_example)(ECG \<mapsto> 23076922)\<rparr>) \<and>
   frame_times 3 130 23076922 0 0 = [7692307, 15384614, 23076921] \<and>
   last (frame_times 3 130 23076922 0 0) - 0 = 23076922 - 1"
proof -
  have kind: "NotificationType_call 0 = Inr ECG" by (simp add: NotificationType_call_def)
  have host: "\<bar>23076930 - from_bytes (slice ecg_frame_example 1 9) -
      device_time_delta polar_h10_example\<bar> < float_overflow"
    by (simp only: ecg_frame_example_facts(3) polar_h10_example_facts(4))
      (simp add: float_overflow_def)
  have p: "0 \<le> from_bytes (slice ecg_frame_example 1 9)"
    by (simp only: ecg_frame_example_facts(3))
  have l: "samples_lost 3 130 23076922 0 = False" by (simp add: samples_lost_def)
  note w = handle_pmd_data_timestamps [OF ecg_frame_example_facts(1,2) kind
      polar_h10_example_facts(1) ecg_frame_example_facts(4) polar_h10_example_facts(2,3)
      _ _ _ _ p host]
  have "handle_pmd_data (PMDMeasurement enums_example) 23076930 ecg_frame_example polar_h10_example =
     (Inr (Some (''save_ecg_data'',
        [(''time'', frame_times 3 130 23076922 0 0), (''lead_1'', [- 1000, 900, 5])])),
      polar_h10_example\<lparr>device_time_delta := 0,
         p_timestamp := (p_timestamp polar_h10_example)(ECG \<mapsto> 23076922)\<rparr>)"
    using w [THEN conjunct1]
    unfolding ecg_frame_example_facts(3) polar_h10_example_facts(4) by simp
  moreover have "last (frame_times 3 130 23076922 0 0) - 0 = 23076922 - 1"
    using w [THEN conjunct2, THEN conjunct2]
    unfolding ecg_frame_example_facts(3) polar_h10_example_facts(4) l by simp
  moreover have "frame_times 3 130 23076922 0 0 = [7692307, 15384614, 23076921]"
    by code_simp
  ultimately show ?thesis by simp
qed

text \<open>
  The stored previous timestamp is not always the last emitted value before adding
  \<open>device_time_delta\<close>, as C3 states: for three samples at 130 Hz in a frame stamped
  23076922 after a previous timestamp 0, the last emitted value is 23076921 and the
  stored one 23076922.
\<close>

theorem handle_pmd_data_stored_timestamp_counterexample:
  "fst (handle_pmd_data (PMDMeasurement enums_example) 23076930 ecg_frame_example
          polar_h10_example) =
     Inr (Some (''save_ecg_data'',
       [(''time'', [7692307, 15384614, 23076921]), (''lead_1'', [- 1000, 900, 5])])) \<and>
   device_time_delta (snd (handle_pmd_data (PMDMeasurement enums_example) 23076930
          ecg_frame_example polar_h10_example)) = 0 \<and>
   p_timestamp (snd (handle_pmd_data (PMDMeasurement enums_example) 23076930
          ecg_frame_example polar_h10_example)) ECG = Some 23076922"
  by code_simp

lemma deliver_pmd_frame_caught:
  assumes "NotificationType_call measurement_type = Inr notify_type"
    and "callbacks st notify_type = Some callback"
    and "decode_pmd_frame M measurement_type frame_type samples = Caught"
  shows "snd (deliver_pmd_frame M measurement_type timestamp frame_type samples st) = st"
    and "\<exists>e. fst (deliver_pmd_frame M measurement_type timestamp frame_type samples st) = Inl e"
  using assms
  by (simp_all add: deliver_pmd_frame_def split: sum.splits)

text \<open>
  C4 (amended). When the samples of a data notification fail to decode, for a kind with
  a callback, the handler leaves that kind's previous timestamp (and every other field
  but \<open>device_time_delta\<close>) as it was and calls no callback; \<open>device_time_delta\<close> is
  resynchronised before the decoding as for every frame: it becomes \<open>now - timestamp\<close>
  when the host time and the device time differ by more than one second, and is
  unchanged otherwise.
\<close>

theorem handle_pmd_data_decode_failure:
  assumes len: "10 \<le> length data"
    and mt: "enum_call M (uint (data ! 0)) = Inr measurement_type"
    and kind: "NotificationType_call measurement_type = Inr notify_type"
    and cb: "callbacks st notify_type = Some callback"
    and dec: "decode_pmd_frame M measurement_type (uint (data ! 9)) (drop 10 data) = Caught"
  defines "timestamp \<equiv> from_bytes (slice data 1 9)"
  shows "snd (handle_pmd_data M now data st) =
       st\<lparr>device_time_delta :=
            (if \<bar>now - timestamp - device_time_delta st\<bar> > 1000000000
             then now - timestamp else device_time_delta st)\<rparr> \<and>
     p_timestamp (snd (handle_pmd_data M now data st)) = p_timestamp st \<and>
     (\<forall>called. fst (handle_pmd_data M now data st) \<noteq> Inr (Some called))"
proof -
  let ?st = "st\<lparr>device_time_delta :=
      (if \<bar>now - timestamp - device_time_delta st\<bar> > 1000000000
       then now - timestamp else device_time_delta st)\<rparr>"
  have cb': "callbacks ?st notify_type = Some callback" by (simp add: cb)
  note d = deliver_pmd_frame_caught [OF kind cb' dec, of timestamp]
  have h: "handle_pmd_data M now data st =
     (if \<bar>now - timestamp - device_time_delta st\<bar> > 1000000000 \<and>
         float_overflow \<le> \<bar>now - timestamp - device_time_delta st\<bar>
      then (Inl OverflowError, st\<lparr>device_time_delta := now - timestamp\<rparr>)
      else deliver_pmd_frame M measurement_type timestamp (uint (data ! 9)) (drop 10 data) ?st)"
    unfolding timestamp_def by (rule handle_pmd_data_header [OF len mt])
  have s: "snd (handle_pmd_data M now data st) = ?st"
    unfolding h using d(1) by simp
  moreover have "\<exists>e. fst (handle_pmd_data M now data st) = Inl e"
    unfolding h using d(2) by simp
  ultimately show ?thesis by auto
qed

theorem handle_pmd_data_decode_failure_witness:
  "decode_pmd_frame (PMDMeasurement enums_example) 0 (uint (ecg_frame_unsupported ! 9))
      (drop 10 ecg_frame_unsupported) = Caught \<and>
   snd (handle_pmd_data (PMDMeasurement enums_example) 23076930 ecg_frame_unsupported
          polar_h10_example) = polar_h10_example\<lparr>device_time_delta := 0\<rparr> \<and>
   p_timestamp (snd (handle_pmd_data (PMDMeasurement enums_example) 23076930
          ecg_frame_unsupported polar_h10_example)) = p_timestamp polar_h10_example \<and>
   (\<forall>called. fst (handle_pmd_data (PMDMeasurement enums_example) 23076930
          ecg_frame_unsupported polar_h10_example) \<noteq> Inr (Some called))"
proof -
  have len: "10 \<le> length ecg_frame_unsupported" by code_simp
  have mt: "enum_call (PMDMeasurement enums_example) (uint (ecg_frame_unsupported ! 0)) = Inr 0"
    by code_simp
  have kind: "NotificationType_call 0 = Inr ECG" by (simp add: NotificationType_call_def)
  have dec: "decode_pmd_frame (PMDMeasurement enums_example) 0 (uint (ecg_frame_unsupported ! 9))
      (drop 10 ecg_frame_unsupported) = Caught"
    by code_simp
  have ts: "from_bytes (slice ecg_frame_unsupported 1 9) = 23076922" by code_simp
  note w = handle_pmd_data_decode_failure [OF len mt kind polar_h10_example_facts(1) dec,
      of 23076930]
  from w dec show ?thesis
    unfolding ts polar_h10_example_facts(4) by simp
qed

text \<open>
  A frame that fails to decode can change the clock state, against C4: an ECG frame of
  the unsupported frame type 1 that arrives when the host clock is more than a second
  off moves \<open>device_time_delta\<close> from 0 to 4976923078 (and the handler then raises
  UnboundLocalError).
\<close>

theorem handle_pmd_data_resync_counterexample:
  "decode_pmd_frame (PMDMeasurement enums_example) 0 (uint (ecg_frame_unsupported ! 9))
      (drop 10 ecg_frame_unsupported) = Caught \<and>
   device_time_delta polar_h10_example = 0 \<and>
   device_time_delta (snd (handle_pmd_data (PMDMeasurement enums_example) 5000000000
      ecg_frame_unsupported polar_h10_example)) = 4976923078 \<and>
   fst (handle_pmd_data (PMDMeasurement enums_example) 5000000000
      ecg_frame_unsupported polar_h10_example) = Inl UnboundLocalError"
  by code_simp

section \<open>Properties of the registration of notifications\<close>

text \<open>
  C5. \<open>remove_notification\<close> for HEAR_RATE returns without raising and leaves the
  callback attached, so that the \<open>register_notification\<close> that follows raises the
  ValueError of a kind that is already registered.
\<close>

theorem remove_notification_heart_rate_stays:
  "remove_notification enums_example transport_refusing HEAR_RATE polar_h10_example =
     (Inr (), polar_h10_example) \<and>
   callbacks polar_h10_example HEAR_RATE = Some ''print_hr'' \<and>
   register_notification enums_example transport_refusing HEAR_RATE ''print_hr'' None
     polar_h10_example = (Inl ValueError, polar_h10_example)"
  by (simp add: remove_notification_def register_notification_def polar_h10_example_def
      transport_refusing_def)

text \<open>
  For ECG and ACC, the kinds with a value below 100, a \<open>remove_notification\<close> whose
  STOP_MEASUREMENT request succeeds does delete the callback and the entry of
  \<open>_current_config\<close>.
\<close>

lemma remove_notification_pmd_kind:
  assumes "config st kind \<noteq> None" and "callbacks st kind \<noteq> None"
    and "NotificationType_value kind < 100"
    and "stop_measurement en env kind = Inr ()"
    and "current_config st kind \<noteq> None"
  shows "remove_notification en env kind st =
     (Inr (), st\<lparr>callbacks := (callbacks st)(kind := None),
                  current_config := (current_config st)(kind := None)\<rparr>)"
proof -
  from assms(3) have "kind \<noteq> HEAR_RATE" by auto
  with assms show ?thesis
    by (simp add: remove_notification_def Let_def)
qed

text \<open>
  C7. \<open>register_notification\<close> for a kind that is supported and already has a callback
  raises ValueError and changes nothing. When the START_MEASUREMENT request of a
  kind without a callback comes back with a status other than SUCCESS, it raises
  PolarH10Error after removing the callback and the entry of \<open>_current_config\<close> it had
  installed: neither is left for that kind, and the callbacks are as before.
\<close>

theorem register_notification_atomic:
  "(config st kind \<noteq> None \<and> callbacks st kind \<noteq> None \<longrightarrow>
      register_notification en env kind callback parameters st = (Inl ValueError, st)) \<and>
   (config st kind \<noteq> None \<and> callbacks st kind = None \<and> NotificationType_value kind < 100 \<and>
    validate_pmd_parameters kind (config st) parameters = Inr (Some valid_params) \<and>
    enum_attr (PMDCommand en) ''START_MEASUREMENT'' = Inr command \<and>
    enum_call (PMDMeasurement en) (NotificationType_value kind) = Inr measurement \<and>
    serialize_pmd_parameters (PMDSetting en)
      (map (\<lambda>item. (fst item, Scalar (snd item))) valid_params) = Inr payload \<and>
    pmd_control_point_request env command measurement payload = Inr (status, response) \<and>
    enum_attr (PMDStatus en) ''SUCCESS'' = Inr success \<and> status \<noteq> success \<longrightarrow>
      register_notification en env kind callback parameters st =
        (Inl PolarH10Error,
         st\<lparr>p_timestamp := (p_timestamp st)(kind \<mapsto> 0),
            current_config := (current_config st)(kind := None)\<rparr>) \<and>
      callbacks (snd (register_notification en env kind callback parameters st)) kind = None \<and>
      current_config (snd (register_notification en env kind callback parameters st)) kind = None)"
proof (intro conjI impI)
  assume "config st kind \<noteq> None \<and> callbacks st kind \<noteq> None"
  then show "register_notification en env kind callback parameters st = (Inl ValueError, st)"
    by (auto simp: register_notification_def)
next
  assume a: "config st kind \<noteq> None \<and> callbacks st kind = None \<and> NotificationType_value kind < 100 \<and>
    validate_pmd_parameters kind (config st) parameters = Inr (Some valid_params) \<and>
    enum_attr (PMDCommand en) ''START_MEASUREMENT'' = Inr command \<and>
    enum_call (PMDMeasurement en) (NotificationType_value kind) = Inr measurement \<and>
    serialize_pmd_parameters (PMDSetting en)
      (map (\<lambda>item. (fst item, Scalar (snd item))) valid_params) = Inr payload \<and>
    pmd_control_point_request env command measurement payload = Inr (status, response) \<and>
    enum_attr (PMDStatus en) ''SUCCESS'' = Inr success \<and> status \<noteq> success"
  then have sm: "start_measurement en env kind (Some valid_params) = Inl PolarH10Error"
    by (simp add: start_measurement_def)
  from a have hr: "kind \<noteq> HEAR_RATE" by auto
  from a have cb: "(callbacks st)(kind := None) = callbacks st" by (simp add: fun_upd_idem)
  have r: "register_notification en env kind callback parameters st =
        (Inl PolarH10Error,
         st\<lparr>p_timestamp := (p_timestamp st)(kind \<mapsto> 0),
            current_config := (current_config st)(kind := None)\<rparr>)"
    using a hr by (auto simp: register_notification_def Let_def sm cb)
  show "register_notification en env kind callback parameters st =
        (Inl PolarH10Error,
         st\<lparr>p_timestamp := (p_timestamp st)(kind \<mapsto> 0),
            current_config := (current_config st)(kind := None)\<rparr>)"
    by (rule r)
  show "callbacks (snd (register_notification en env kind callback parameters st)) kind = None"
    using a by (simp add: r)
  show "current_config (snd (register_notification en env kind callback parameters st)) kind = None"
    by (simp add: r)
qed

theorem register_notification_atomic_witness:
  "register_notification enums_example transport_refusing ECG ''other'' None polar_h10_example =
     (Inl ValueError, polar_h10_example) \<and>
   register_notification enums_example transport_refusing ECG ''save_ecg_data'' None
       polar_h10_idle =
     (Inl PolarH10Error,
      polar_h10_idle\<lparr>p_timestamp := (p_timestamp polar_h10_idle)(ECG \<mapsto> 0),
         current_config := (current_config polar_h10_idle)(ECG := None)\<rparr>) \<and>
   callbacks (snd (register_notification enums_example transport_refusing ECG
       ''save_ecg_data'' None polar_h10_idle)) ECG = None \<and>
   current_config (snd (register_notification enums_example transport_refusing ECG
       ''save_ecg_data'' None polar_h10_idle)) ECG = None"
proof -
  have 1: "config polar_h10_example ECG \<noteq> None \<and> callbacks polar_h10_example ECG \<noteq> None"
    by (simp add: polar_h10_example_def)
  have 2: "config polar_h10_idle ECG \<noteq> None \<and> callbacks polar_h10_idle ECG = None \<and>
    NotificationType_value ECG < 100 \<and>
    validate_pmd_parameters ECG (config polar_h10_idle) None =
      Inr (Some [(''SAMPLE_RATE'', 130), (''RESOLUTION'', 14)]) \<and>
    enum_attr (PMDCommand enums_example) ''START_MEASUREMENT'' = Inr 2 \<and>
    enum_call (PMDMeasurement enums_example) (NotificationType_value ECG) = Inr 0 \<and>
    serialize_pmd_parameters (PMDSetting enums_example)
      (map (\<lambda>item. (fst item, Scalar (snd item))) [(''SAMPLE_RATE'', 130), (''RESOLUTION'', 14)]) =
      Inr [0, 1, 130, 0, 1, 1, 14, 0] \<and>
    pmd_control_point_request transport_refusing 2 0 [0, 1, 130, 0, 1, 1, 14, 0] = Inr (6, []) \<and>
    enum_attr (PMDStatus enums_example) ''SUCCESS'' = Inr 0 \<and> (6 :: int) \<noteq> 0"
    by (intro conjI; code_simp)
  from register_notification_atomic [where st = polar_h10_example and kind = ECG
      and en = enums_example and env = transport_refusing and callback = "''other''"
      and parameters = None, THEN conjunct1] 1
  have a: "register_notification enums_example transport_refusing ECG ''other'' None
      polar_h10_example = (Inl ValueError, polar_h10_example)"
    by blast
  from register_notification_atomic [where st = polar_h10_idle and kind = ECG
      and en = enums_example and env = transport_refusing and callback = "''save_ecg_data''"
      and parameters = None, THEN conjunct2] 2
  have b: "register_notification enums_example transport_refusing ECG ''save_ecg_data'' None
       polar_h10_idle =
     (Inl PolarH10Error,
      polar_h10_idle\<lparr>p_timestamp := (p_timestamp polar_h10_idle)(ECG \<mapsto> 0),
         current_config := (current_config polar_h10_idle)(ECG := None)\<rparr>) \<and>
   callbacks (snd (register_notification enums_example transport_refusing ECG
       ''save_ecg_data'' None polar_h10_idle)) ECG = None \<and>
   current_config (snd (register_notification enums_example transport_refusing ECG
       ''save_ecg_data'' None polar_h10_idle)) ECG = None"
    by blast
  from a b show ?thesis by blast
qed

section \<open>Properties of the response handler\<close>



end
